theory Spec2Isabelle
  imports Complex_Main
begin

section \<open>Errors and containers\<close>

text \<open>
  The Python exceptions that the modelled code can raise. A computation returns
  \<open>error + 'a\<close>: \<open>Inl e\<close> is the raised exception, \<open>Inr v\<close> the value.
\<close>

datatype error = IndexError | TypeError | ValueError | ZeroDivisionError | AttributeError

definition bind :: "error + 'a \<Rightarrow> ('a \<Rightarrow> error + 'b) \<Rightarrow> error + 'b" where
  "bind r f = (case r of Inl e \<Rightarrow> Inl e | Inr v \<Rightarrow> f v)"

definition index :: "'a list \<Rightarrow> nat \<Rightarrow> error + 'a" where
  \<comment> \<open>\<open>xs[i]\<close> for a non-negative \<open>i\<close>\<close>
  "index xs i = (if i < length xs then Inr (xs ! i) else Inl IndexError)"

definition subscript :: "'a list option \<Rightarrow> nat \<Rightarrow> error + 'a" where
  \<comment> \<open>\<open>xs[i]\<close> where \<open>xs\<close> may be the default \<open>None\<close>\<close>
  "subscript xs i = (case xs of None \<Rightarrow> Inl TypeError | Some ys \<Rightarrow> index ys i)"

definition store :: "'a list \<Rightarrow> nat \<Rightarrow> 'a \<Rightarrow> error + 'a list" where
  \<comment> \<open>\<open>xs[i] = v\<close> for a non-negative \<open>i\<close>\<close>
  "store xs i v = (if i < length xs then Inr (xs[i := v]) else Inl IndexError)"

definition attr :: "'a option \<Rightarrow> error + 'a" where
  \<comment> \<open>attribute access on an object that may be \<open>None\<close>\<close>
  "attr x = (case x of None \<Rightarrow> Inl AttributeError | Some v \<Rightarrow> Inr v)"

definition store_last :: "'a list \<Rightarrow> 'a \<Rightarrow> error + 'a list" where
  \<comment> \<open>\<open>xs[-1] = v\<close>\<close>
  "store_last xs v = (if xs = [] then Inl IndexError else Inr (xs[length xs - 1 := v]))"

definition index_last :: "'a list \<Rightarrow> error + 'a" where
  \<comment> \<open>\<open>xs[-1]\<close>\<close>
  "index_last xs = (if xs = [] then Inl IndexError else Inr (last xs))"

section \<open>Matrices\<close>

text \<open>
  A two-dimensional numpy array: its shape and its rows. Floating-point numbers are
  idealised as reals.
\<close>

datatype mat = Mat (nrows: nat) (ncols: nat) (rows: "real list list")

section \<open>The deep autoencoder classifier\<close>

text \<open>
  The \<open>Autoencoder\<close> class is imported by \<open>DeepAutoencoderClassifier.py\<close> but is
  not in the source; what the classifier uses of it is a parameter of the model: the
  constructor, \<open>fit\<close>, \<open>transform\<close> and the attribute \<open>wts_\<close>. \<open>fit\<close> mutates the
  autoencoder, so it returns the autoencoder after training, or the error that
  the call raised. \<open>transform\<close> returns the encoding of the data and leaves the
  autoencoder as it is, as the specification describes it.
\<close>

record 'ae autoencoder_class =
  new_ae :: "nat \<Rightarrow> nat \<Rightarrow> real \<Rightarrow> real \<Rightarrow> real \<Rightarrow> 'ae"
  fit :: "'ae \<Rightarrow> mat \<Rightarrow> string \<Rightarrow> nat \<Rightarrow> real \<Rightarrow> real \<Rightarrow> error + 'ae"
  transform :: "'ae \<Rightarrow> mat \<Rightarrow> error + mat"
  ae_wts :: "'ae \<Rightarrow> mat list"

datatype activation = Sigmoid | Softmax

text \<open>
  The instance: \<open>self_wts\<close> is the attribute \<open>self.wts_\<close>, \<open>self_n_nodes\<close> the layer
  sizes \<open>self.n_nodes\<close> that the network core keeps, \<open>act\<close> the activation cache
  \<open>self.act\<close>.
\<close>

record 'ae dac =
  stacked_ae :: "'ae option list"
  activ :: "activation list"
  self_n_nodes :: "nat list"
  self_wts :: "mat list"
  act :: "mat list"
  decay :: real



text \<open>
  \<open>pre_train\<close>, lines 28 to 42. The loop of line 39 runs over
  \<open>enumerate(self.stacked_ae[1:])\<close>; \<open>X_tf\<close> is the data handed from one autoencoder
  to the next.
\<close>

fun pre_train_loop :: "'ae autoencoder_class \<Rightarrow> string \<Rightarrow> nat list option \<Rightarrow> real list option \<Rightarrow>
    real list option \<Rightarrow> nat \<Rightarrow> 'ae option list \<Rightarrow> 'ae dac \<Rightarrow> mat \<Rightarrow> error + 'ae dac" where
  "pre_train_loop C method n_iter learn_rate alpha i [] s X_tf = Inr s"
| "pre_train_loop C method n_iter learn_rate alpha i (a # rest) s X_tf =
     bind (attr a) (\<lambda>ae.
     bind (subscript n_iter i) (\<lambda>n.
     bind (subscript learn_rate i) (\<lambda>l.
     bind (subscript alpha i) (\<lambda>al.
     bind (fit C ae X_tf method n l al) (\<lambda>ae'.
     bind (index (ae_wts C ae') 0) (\<lambda>w.
     bind (store (self_wts s) (i + 1) w) (\<lambda>wts'.
     bind (transform C ae' X_tf) (\<lambda>X_tf'.
     pre_train_loop C method n_iter learn_rate alpha (i + 1) rest
       (s\<lparr>stacked_ae := (stacked_ae s)[i + 1 := Some ae'], self_wts := wts'\<rparr>) X_tf'))))))))"

definition pre_train :: "'ae autoencoder_class \<Rightarrow> 'ae dac \<Rightarrow> mat option \<Rightarrow> 'x option \<Rightarrow> string \<Rightarrow>
    nat list option \<Rightarrow> real list option \<Rightarrow> real list option \<Rightarrow> error + 'ae dac" where
  "pre_train C s X x_data method n_iter learn_rate alpha =
     (case X of
        None \<Rightarrow> Inr s
      | Some X0 \<Rightarrow>
          bind (index (stacked_ae s) 0) (\<lambda>a0.
          bind (attr a0) (\<lambda>ae0.
          bind (subscript n_iter 0) (\<lambda>n.
          bind (subscript learn_rate 0) (\<lambda>l.
          bind (subscript alpha 0) (\<lambda>al.
          bind (fit C ae0 X0 method n l al) (\<lambda>ae0'.
          bind (transform C ae0' X0) (\<lambda>X_tf.
          bind (index (ae_wts C ae0') 0) (\<lambda>w.
          bind (store (self_wts s) 0 w) (\<lambda>wts'.
          pre_train_loop C method n_iter learn_rate alpha 0
            (tl ((stacked_ae s)[0 := Some ae0']))
            (s\<lparr>stacked_ae := (stacked_ae s)[0 := Some ae0'], self_wts := wts'\<rparr>) X_tf))))))))))"

text \<open>
  The greedy layer-wise training in the words of the specification: autoencoder \<open>j\<close>
  is fitted on the data transformed by autoencoder \<open>j - 1\<close> (the raw data for the
  first), and its encoding weight matrix, index 0 of its weight collection, is taken
  out. The result pairs every trained autoencoder with that matrix. The budget lists
  are read at \<open>j - 1\<close>, which is 0 for the first autoencoder.
\<close>

fun layerwise :: "'ae autoencoder_class \<Rightarrow> string \<Rightarrow> nat list option \<Rightarrow> real list option \<Rightarrow>
    real list option \<Rightarrow> nat \<Rightarrow> 'ae option list \<Rightarrow> mat \<Rightarrow> error + ('ae \<times> mat) list" where
  "layerwise C method n_iter learn_rate alpha j [] X = Inr []"
| "layerwise C method n_iter learn_rate alpha j (a # rest) X =
     bind (attr a) (\<lambda>ae.
     bind (subscript n_iter (j - 1)) (\<lambda>n.
     bind (subscript learn_rate (j - 1)) (\<lambda>l.
     bind (subscript alpha (j - 1)) (\<lambda>al.
     bind (fit C ae X method n l al) (\<lambda>ae'.
     bind (index (ae_wts C ae') 0) (\<lambda>w.
     bind (transform C ae' X) (\<lambda>X'.
     bind (layerwise C method n_iter learn_rate alpha (j + 1) rest X') (\<lambda>fs.
     Inr ((ae', w) # fs)))))))))"

subsection \<open>A concrete autoencoder class\<close>

text \<open>
  An instance of the autoencoder interface on which the model can be run: an
  autoencoder keeps its constructor arguments and its weights; \<open>fit\<close> writes its
  budget into every entry of the encoding matrix, so that the budget used can be
  read off the result.
\<close>

datatype demo_ae = DemoAE nat nat real real real "mat list"

definition const_mat :: "nat \<Rightarrow> nat \<Rightarrow> real \<Rightarrow> mat" where
  "const_mat r c v = Mat r c (replicate r (replicate c v))"

definition demo_class :: "demo_ae autoencoder_class" where
  "demo_class = \<lparr>
     new_ae = (\<lambda>d h dc r b. DemoAE d h dc r b []),
     fit = (\<lambda>ae X method n l al. case ae of DemoAE d h dc r b ws \<Rightarrow>
              Inr (DemoAE d h dc r b [const_mat (d + 1) h (real n * l + al), const_mat (h + 1) d 0])),
     transform = (\<lambda>ae X. case ae of DemoAE d h dc r b ws \<Rightarrow> Inr (const_mat h (ncols X) (1 / 2))),
     ae_wts = (\<lambda>ae. case ae of DemoAE d h dc r b ws \<Rightarrow> ws) \<rparr>"


text \<open>The classifier with \<open>d = 2\<close>, \<open>k = 2\<close>, \<open>n_hid = [2, 1]\<close> after construction.\<close>

definition demo_s0 :: "demo_ae dac" where
  "demo_s0 = \<lparr> stacked_ae = [Some (DemoAE 2 2 (1 / 10) (3 / 10) 3 []),
                              Some (DemoAE 2 1 (1 / 10) (3 / 10) 3 [])],
      activ = [Sigmoid, Sigmoid, Softmax], self_n_nodes = [2, 2, 1, 2],
      self_wts = [const_mat 3 2 0, const_mat 3 1 0, const_mat 2 2 0], act = [], decay = 7 \<rparr>"

text \<open>The same classifier after \<open>pre_train\<close> with budgets \<open>n_iter = [10, 20]\<close>,
  \<open>learn_rate = [1, 2]\<close>, \<open>alpha = [1/2, 1/4]\<close>.\<close>

definition demo_s1 :: "demo_ae dac" where
  "demo_s1 = \<lparr> stacked_ae =
        [Some (DemoAE 2 2 (1 / 10) (3 / 10) 3 [const_mat 3 2 (21 / 2), const_mat 3 2 0]),
         Some (DemoAE 2 1 (1 / 10) (3 / 10) 3 [const_mat 3 1 (21 / 2), const_mat 2 2 0])],
      activ = [Sigmoid, Sigmoid, Softmax], self_n_nodes = [2, 2, 1, 2],
      self_wts = [const_mat 3 2 (21 / 2), const_mat 3 1 (21 / 2), const_mat 2 2 0],
      act = [], decay = 7 \<rparr>"

section \<open>Array operations\<close>

text \<open>
  The numpy operations that the modelled code uses, on two-dimensional arrays. Every
  result is tabulated from its entries by \<open>mk\<close>, so its rows always agree with its
  shape. \<open>wf_mat\<close> is the invariant of an array: as many rows as \<open>nrows\<close> says, each
  of length \<open>ncols\<close>.
\<close>

definition entry :: "mat \<Rightarrow> nat \<Rightarrow> nat \<Rightarrow> real" where
  "entry M i j = rows M ! i ! j"

definition mk :: "nat \<Rightarrow> nat \<Rightarrow> (nat \<Rightarrow> nat \<Rightarrow> real) \<Rightarrow> mat" where
  "mk r c f = Mat r c (map (\<lambda>i. map (\<lambda>j. f i j) [0..<c]) [0..<r])"

definition wf_mat :: "mat \<Rightarrow> bool" where
  "wf_mat M \<longleftrightarrow> length (rows M) = nrows M \<and> (\<forall>row \<in> set (rows M). length row = ncols M)"

definition shape :: "mat \<Rightarrow> nat \<times> nat" where
  "shape M = (nrows M, ncols M)"

text \<open>
  Broadcasting of an elementwise operation: two axes are compatible when their lengths
  are equal or one of them is 1, and the axis of length 1 is stretched. \<open>bdim\<close> is
  the test numpy makes, \<open>bmax\<close> the resulting length, \<open>bget\<close> the read of a
  stretched operand.
\<close>

definition bdim :: "nat \<Rightarrow> nat \<Rightarrow> bool" where
  "bdim a b \<longleftrightarrow> a = b \<or> a = 1 \<or> b = 1"

definition bmax :: "nat \<Rightarrow> nat \<Rightarrow> nat" where
  "bmax a b = (if a = 1 then b else a)"

definition bget :: "mat \<Rightarrow> nat \<Rightarrow> nat \<Rightarrow> real" where
  "bget M i j = entry M (if nrows M = 1 then 0 else i) (if ncols M = 1 then 0 else j)"

definition ew_total :: "(real \<Rightarrow> real \<Rightarrow> real) \<Rightarrow> mat \<Rightarrow> mat \<Rightarrow> mat" where
  "ew_total f A B = mk (bmax (nrows A) (nrows B)) (bmax (ncols A) (ncols B))
     (\<lambda>i j. f (bget A i j) (bget B i j))"

definition ew :: "(real \<Rightarrow> real \<Rightarrow> real) \<Rightarrow> mat \<Rightarrow> mat \<Rightarrow> error + mat" where
  "ew f A B = (if bdim (nrows A) (nrows B) \<and> bdim (ncols A) (ncols B)
               then Inr (ew_total f A B) else Inl ValueError)"

text \<open>\<open>A - B\<close> and \<open>A * B\<close> on operands that broadcast.\<close>

definition minus_mat :: "mat \<Rightarrow> mat \<Rightarrow> mat" where
  "minus_mat A B = ew_total (\<lambda>a b. a - b) A B"

definition times_mat :: "mat \<Rightarrow> mat \<Rightarrow> mat" where
  "times_mat A B = ew_total (\<lambda>a b. a * b) A B"

text \<open>\<open>c * A\<close> and \<open>c - A\<close> for a scalar \<open>c\<close>, \<open>A.T\<close>, \<open>A[1:]\<close>.\<close>

definition smul :: "real \<Rightarrow> mat \<Rightarrow> mat" where
  "smul c A = mk (nrows A) (ncols A) (\<lambda>i j. c * entry A i j)"

definition rsub :: "real \<Rightarrow> mat \<Rightarrow> mat" where
  "rsub c A = mk (nrows A) (ncols A) (\<lambda>i j. c - entry A i j)"

definition transpose_mat :: "mat \<Rightarrow> mat" where
  "transpose_mat A = mk (ncols A) (nrows A) (\<lambda>i j. entry A j i)"

definition drop_row :: "mat \<Rightarrow> mat" where
  "drop_row A = mk (nrows A - 1) (ncols A) (\<lambda>i j. entry A (i + 1) j)"

text \<open>\<open>np.dot\<close> of two-dimensional arrays: the inner lengths must agree.\<close>

definition mdot :: "mat \<Rightarrow> mat \<Rightarrow> mat" where
  "mdot A B = mk (nrows A) (ncols B)
     (\<lambda>i j. sum_list (map (\<lambda>k. entry A i k * entry B k j) [0..<ncols A]))"

definition np_dot :: "mat \<Rightarrow> mat \<Rightarrow> error + mat" where
  "np_dot A B = (if ncols A = nrows B then Inr (mdot A B) else Inl ValueError)"

text \<open>
  \<open>G[1:] += R\<close>: the rows of \<open>G\<close> from row 1 on are replaced by their sum with
  \<open>R\<close>; \<open>R\<close> must broadcast to the shape of \<open>G[1:]\<close>, which an in-place operation
  cannot enlarge.
\<close>

definition add_below :: "mat \<Rightarrow> mat \<Rightarrow> mat" where
  "add_below G R = mk (nrows G) (ncols G)
     (\<lambda>i j. if i = 0 then entry G i j else entry G i j + bget R (i - 1) j)"

definition iadd_from_row1 :: "mat \<Rightarrow> mat \<Rightarrow> error + mat" where
  "iadd_from_row1 G R =
     (if (nrows R = nrows G - 1 \<or> nrows R = 1) \<and> (ncols R = ncols G \<or> ncols R = 1)
      then Inr (add_below G R) else Inl ValueError)"

text \<open>\<open>np.append(np.ones([1,m]), X, axis=0)\<close> where \<open>m\<close> is the number of columns of \<open>X\<close>.\<close>

definition prepend_ones :: "mat \<Rightarrow> mat" where
  "prepend_ones X = mk (nrows X + 1) (ncols X) (\<lambda>i j. if i = 0 then 1 else entry X (i - 1) j)"

text \<open>
  \<open>np.argmax(A, axis=0)\<close>: for every column the index of its first maximum; an
  array without rows has no maximum. The scan keeps the earliest of equal maxima.
\<close>

fun argmax_scan :: "real list \<Rightarrow> nat \<Rightarrow> nat \<Rightarrow> real \<Rightarrow> nat" where
  "argmax_scan [] i b bv = b"
| "argmax_scan (x # xs) i b bv =
     (if bv < x then argmax_scan xs (i + 1) i x else argmax_scan xs (i + 1) b bv)"

definition column :: "mat \<Rightarrow> nat \<Rightarrow> real list" where
  "column A j = map (\<lambda>i. entry A i j) [0..<nrows A]"

definition argmax_col :: "mat \<Rightarrow> nat \<Rightarrow> nat" where
  "argmax_col A j = argmax_scan (tl (column A j)) 1 0 (entry A 0 j)"

definition argmax_axis0 :: "mat \<Rightarrow> error + nat list" where
  "argmax_axis0 A = (if nrows A = 0 then Inl ValueError
                     else Inr (map (argmax_col A) [0..<ncols A]))"

text \<open>
  A floating-point result that may be \<open>nan\<close>. \<open>np.mean\<close> of an empty array is
  \<open>nan\<close>, arithmetic on \<open>nan\<close> gives \<open>nan\<close>, and a comparison with \<open>nan\<close> is false.
\<close>

datatype pyfloat = Num real | NaN

definition np_mean :: "real list \<Rightarrow> pyfloat" where
  "np_mean xs = (if xs = [] then NaN else Num (sum_list xs / real (length xs)))"

definition one_minus :: "pyfloat \<Rightarrow> pyfloat" where
  "one_minus v = (case v of NaN \<Rightarrow> NaN | Num x \<Rightarrow> Num (1 - x))"

definition less_float :: "pyfloat \<Rightarrow> real \<Rightarrow> bool" where
  "less_float v t = (case v of NaN \<Rightarrow> False | Num x \<Rightarrow> x < t)"

text \<open>
  \<open>1.0*(p == q)\<close> on two index vectors, as numpy before version 1.13 evaluates it
  (the code is Python 2): a vector of length 1 is broadcast, and on lengths that
  do not broadcast the comparison gives the scalar \<open>False\<close>, which the
  multiplication turns into the single number 0.
\<close>

definition eq_indicator :: "nat list \<Rightarrow> nat list \<Rightarrow> real list" where
  "eq_indicator p q =
     (if bdim (length p) (length q)
      then map (\<lambda>i. if p ! (if length p = 1 then 0 else i) = q ! (if length q = 1 then 0 else i)
                     then 1 else 0) [0..<bmax (length p) (length q)]
      else [0])"

section \<open>Prediction\<close>

text \<open>
  \<open>predict\<close>, lines 97 to 123. \<open>compute_activations\<close> is inherited from the network
  core, which is not in the source: it is a parameter, the forward propagation that
  fills the activation cache. The label matrix \<open>y\<close> is optional. The test \<open>y==None\<close>
  of line 120 is evaluated as numpy before version 1.13 does: it is false for every
  array \<open>y\<close> and true only when no labels were given. The result is the
  prediction, the misclassification error when labels were given, and the instance
  with the activations computed.
\<close>

definition predict :: "('ae dac \<Rightarrow> mat \<Rightarrow> error + 'ae dac) \<Rightarrow> 'ae dac \<Rightarrow> mat \<Rightarrow> mat option \<Rightarrow>
    error + (nat list \<times> pyfloat option) \<times> 'ae dac" where
  "predict compute_activations s X y =
     bind (compute_activations s (prepend_ones X)) (\<lambda>s1.
     bind (index_last (act s1)) (\<lambda>a.
     bind (argmax_axis0 a) (\<lambda>pred.
     case y of
       None \<Rightarrow> Inr ((pred, None), s1)
     | Some yv \<Rightarrow>
         bind (argmax_axis0 yv) (\<lambda>lab.
         Inr ((pred, Some (one_minus (np_mean (eq_indicator pred lab)))), s1)))))"

text \<open>
  A forward propagation on which \<open>predict\<close> can be run: the class scores of the last
  weight matrix on the data with its row of ones, \<open>W\<^sup>T X\<close>. The softmax of the
  network is increasing in the scores, so it has the same arg-max.
\<close>

definition demo_activations :: "demo_ae dac \<Rightarrow> mat \<Rightarrow> error + demo_ae dac" where
  "demo_activations s X =
     bind (index_last (self_wts s)) (\<lambda>w.
     bind (np_dot (transpose_mat w) X) (\<lambda>z.
     Inr (s\<lparr>act := [z]\<rparr>)))"

text \<open>
  In the words of the specification: the prediction is the arg-max class of every
  example, and the misclassification rate is the fraction of examples whose
  predicted index differs from the label index.
\<close>

definition predictions :: "mat \<Rightarrow> nat list" where
  "predictions a = map (argmax_col a) [0..<ncols a]"

definition mismatch_rate :: "nat list \<Rightarrow> nat list \<Rightarrow> real" where
  "mismatch_rate p q =
     1 - real (length (filter (\<lambda>i. p ! i = q ! i) [0..<length p])) / real (length p)"

text \<open>
  A classifier of two features into two classes: the score of class 0 is the bias
  entry, the score of class 1 is the first feature. A batch of three examples, its
  one-hot labels, and the classifier after the forward propagation on that batch.
\<close>

definition demo_clf :: "demo_ae dac" where
  "demo_clf = \<lparr> stacked_ae = [], activ = [Softmax], self_n_nodes = [2, 2],
      self_wts = [Mat 3 2 [[1, 0], [0, 1], [0, 0]]], act = [], decay = 0 \<rparr>"

definition demo_X :: mat where
  "demo_X = Mat 2 3 [[1, 2, 3], [4, 5, 6]]"

definition demo_y :: mat where
  "demo_y = Mat 2 3 [[1, 0, 1], [0, 1, 0]]"

definition demo_s2 :: "demo_ae dac" where
  "demo_s2 = demo_clf\<lparr>act := [Mat 2 3 [[1, 1, 1], [1, 2, 3]]]\<rparr>"

section \<open>Flattening the weights\<close>

text \<open>
  Modelled from the spec: \<open>nnetutils.unroll\<close> and \<open>nnetutils.reroll\<close> are called by
  the tests but are not in the source. The specification describes the flattened
  parameter vector as "produced by concatenating all weight matrices in layer order
  (unroll) and its inverse (reroll)", the matrix at index \<open>i\<close> having shape
  \<open>(n_nodes[i]+1) \<times> n_nodes[i+1]\<close>. A matrix is flattened row by row, as numpy does;
  \<open>reroll\<close> cuts the vector into consecutive pieces of the sizes that the topology
  gives and fails when the vector is too short for them.
\<close>

definition flatten :: "mat \<Rightarrow> real list" where
  "flatten M = concat (rows M)"

definition unroll :: "mat list \<Rightarrow> real list" where
  "unroll ws = concat (map flatten ws)"

definition reshape :: "nat \<Rightarrow> nat \<Rightarrow> real list \<Rightarrow> mat" where
  "reshape r c v = Mat r c (map (\<lambda>i. take c (drop (i * c) v)) [0..<r])"

fun total_size :: "nat list \<Rightarrow> nat" where
  "total_size (n1 # n2 # ns) = (n1 + 1) * n2 + total_size (n2 # ns)"
| "total_size ns = 0"

fun reroll_mats :: "real list \<Rightarrow> nat list \<Rightarrow> mat list" where
  "reroll_mats v (n1 # n2 # ns) =
     reshape (n1 + 1) n2 (take ((n1 + 1) * n2) v) # reroll_mats (drop ((n1 + 1) * n2) v) (n2 # ns)"
| "reroll_mats v ns = []"

definition reroll :: "real list \<Rightarrow> nat list \<Rightarrow> error + mat list" where
  "reroll v n_nodes = (if length v < total_size n_nodes then Inl ValueError
                       else Inr (reroll_mats v n_nodes))"

text \<open>
  A weight collection of the topology \<open>n_nodes\<close>: one matrix per pair of
  consecutive layers, of shape \<open>(n_nodes[i]+1) \<times> n_nodes[i+1]\<close>.
\<close>

fun has_topology :: "nat list \<Rightarrow> mat list \<Rightarrow> bool" where
  "has_topology (n1 # n2 # ns) (w # ws) \<longleftrightarrow>
     wf_mat w \<and> nrows w = n1 + 1 \<and> ncols w = n2 \<and> has_topology (n2 # ns) ws"
| "has_topology [n] [] \<longleftrightarrow> True"
| "has_topology ns ws \<longleftrightarrow> False"

section \<open>The gradient check\<close>

text \<open>
  The three tests of \<open>NeuralNetworkCore_test.py\<close> share their body (lines 34 to 65,
  82 to 113, 130 to 161). The network classes under test are not in the source, so
  what the tests call on them is a parameter: \<open>loss weights\<close> is the cost after a
  forward propagation with the given weights on the fixed data, and \<open>grad\<close> is the
  list of gradient matrices that \<open>bprop\<close> returned. \<open>perm\<close> is the random
  permutation \<open>np.random.permutation(n)\<close>.
\<close>

definition n_params :: "mat list \<Rightarrow> nat" where
  \<comment> \<open>\<open>sum(np.size(w) for w in nnet.wts_)\<close>\<close>
  "n_params wts = sum_list (map (\<lambda>w. nrows w * ncols w) wts)"

definition sample_idx :: "nat \<Rightarrow> nat list \<Rightarrow> nat list" where
  \<comment> \<open>\<open>np.random.permutation(n)[:(n/20)]\<close>, an integer division\<close>
  "sample_idx n perm = take (n div 20) perm"

definition perturb :: "real list \<Rightarrow> nat \<Rightarrow> real \<Rightarrow> error + real list" where
  \<comment> \<open>\<open>w[x] += e\<close>\<close>
  "perturb w x e = (if x < length w then Inr (w[x := w ! x + e]) else Inl IndexError)"

fun ngrad_loop :: "real \<Rightarrow> nat list \<Rightarrow> (mat list \<Rightarrow> real) \<Rightarrow> mat list \<Rightarrow> nat list \<Rightarrow>
    error + real list" where
  "ngrad_loop eps n_nodes loss wts [] = Inr []"
| "ngrad_loop eps n_nodes loss wts (x # idx) =
     bind (perturb (unroll wts) x eps) (\<lambda>w_plus.
     bind (perturb (unroll wts) x (- eps)) (\<lambda>w_minus.
     bind (reroll w_plus n_nodes) (\<lambda>weights_plus.
     bind (reroll w_minus n_nodes) (\<lambda>weights_minus.
     bind (ngrad_loop eps n_nodes loss wts idx) (\<lambda>ngrad.
     Inr ((loss weights_plus - loss weights_minus) / (2 * eps) # ngrad))))))"

definition fancy_index :: "real list \<Rightarrow> nat list \<Rightarrow> error + real list" where
  \<comment> \<open>\<open>bgrad[idx]\<close>\<close>
  "fancy_index v idx = (if list_all (\<lambda>x. x < length v) idx then Inr (map (\<lambda>x. v ! x) idx)
                        else Inl IndexError)"

definition gradient_check :: "real \<Rightarrow> real \<Rightarrow> nat list \<Rightarrow> (mat list \<Rightarrow> real) \<Rightarrow> mat list \<Rightarrow>
    mat list \<Rightarrow> nat list \<Rightarrow> error + bool" where
  "gradient_check err_tol eps n_nodes loss grad wts perm =
     (let bgrad = unroll grad;
          n = n_params wts;
          idx = sample_idx n perm
      in bind (ngrad_loop eps n_nodes loss wts idx) (\<lambda>ngrad.
         bind (fancy_index bgrad idx) (\<lambda>bsel.
         Inr (less_float (np_mean (map2 (\<lambda>a b. \<bar>a - b\<bar>) ngrad bsel)) err_tol))))"

text \<open>
  The weights that the tests set: \<open>0.01*np.cos(np.arange((n1+1)*n2)).reshape(n1+1,n2)\<close>
  for every pair of consecutive layer sizes.
\<close>

definition cos_weights :: "nat list \<Rightarrow> mat list" where
  "cos_weights n_nodes =
     map (\<lambda>(n1, n2). mk (n1 + 1) n2 (\<lambda>i j. (1 / 100) * cos (real (i * n2 + j))))
       (zip (butlast n_nodes) (tl n_nodes))"

text \<open>
  The three tests, with \<open>d = 5\<close> and \<open>k = 3\<close> from \<open>setUp\<close>. The result is whether
  \<open>assertLess(cerr, err_tol)\<close> holds. The autoencoder has one hidden layer of 50
  units and reconstructs its 5 inputs.
\<close>

definition test_Autoencoder :: "(mat list \<Rightarrow> real) \<Rightarrow> mat list \<Rightarrow> nat list \<Rightarrow> error + bool" where
  "test_Autoencoder loss grad perm =
     gradient_check (1 / 10 ^ 9) (1 / 10 ^ 4) [5, 50, 5] loss grad (cos_weights [5, 50, 5]) perm"

definition test_SoftmaxClassifier_single_layer ::
    "(mat list \<Rightarrow> real) \<Rightarrow> mat list \<Rightarrow> nat list \<Rightarrow> error + bool" where
  "test_SoftmaxClassifier_single_layer loss grad perm =
     gradient_check (1 / 10 ^ 10) (1 / 10 ^ 5) ([5] @ [50] @ [3]) loss grad
       (cos_weights ([5] @ [50] @ [3])) perm"

definition test_SoftmaxClassifier_multi_layer ::
    "(mat list \<Rightarrow> real) \<Rightarrow> mat list \<Rightarrow> nat list \<Rightarrow> error + bool" where
  "test_SoftmaxClassifier_multi_layer loss grad perm =
     gradient_check (1 / 10 ^ 10) (1 / 10 ^ 5) ([5] @ [50, 25] @ [3]) loss grad
       (cos_weights ([5] @ [50, 25] @ [3])) perm"

text \<open>
  In the words of the specification: the central difference of the loss in the
  parameter of index \<open>x\<close>, all other parameters fixed.
\<close>

definition central_difference :: "(mat list \<Rightarrow> real) \<Rightarrow> nat list \<Rightarrow> real list \<Rightarrow> real \<Rightarrow> nat \<Rightarrow> real" where
  "central_difference loss n_nodes w eps x =
     (loss (reroll_mats (w[x := w ! x + eps]) n_nodes)
      - loss (reroll_mats (w[x := w ! x - eps]) n_nodes)) / (2 * eps)"

section \<open>Cost and back-propagation of the deep classifier\<close>

text \<open>
  The optional argument \<open>wts\<close> of \<open>cost_function\<close> and \<open>bprop\<close>: \<open>if not wts\<close> takes
  the instance's weights both for \<open>None\<close> and for an empty list.
\<close>

definition wts_or_self :: "'ae dac \<Rightarrow> mat list option \<Rightarrow> mat list" where
  "wts_or_self s wts = (case wts of None \<Rightarrow> self_wts s
                        | Some ws \<Rightarrow> if ws = [] then self_wts s else ws)"

definition reciprocal :: "nat \<Rightarrow> error + real" where
  \<comment> \<open>\<open>1./m\<close> for the integer \<open>m\<close>\<close>
  "reciprocal m = (if m = 0 then Inl ZeroDivisionError else Inr (1 / real m))"

text \<open>
  \<open>cost_function\<close>, lines 44 to 53: the mean over the examples of the column sums
  of \<open>-1.0*y*np.log(self.act[-1])\<close>, plus \<open>0.5*self.decay*np.sum(wts[-1][1:]**2)\<close>.
  The logarithm is the real one where the activation is positive. Where an
  activation that enters the product is zero or negative, \<open>np.log\<close> gives \<open>-inf\<close> or
  \<open>nan\<close> and the cost is not a finite number: \<open>log_finite\<close> tests for it, and the
  model returns \<open>NaN\<close> for every such cost.
\<close>

definition log_mat :: "mat \<Rightarrow> mat" where
  "log_mat A = mk (nrows A) (ncols A) (\<lambda>i j. ln (entry A i j))"

definition log_finite :: "mat \<Rightarrow> nat \<Rightarrow> nat \<Rightarrow> bool" where
  "log_finite a r c \<longleftrightarrow> list_all (\<lambda>i. list_all (\<lambda>j. 0 < bget a i j) [0..<c]) [0..<r]"

definition column_sums :: "mat \<Rightarrow> real list" where
  "column_sums A = map (\<lambda>j. sum_list (column A j)) [0..<ncols A]"

definition sum_squares :: "mat \<Rightarrow> real" where
  "sum_squares A = sum_list (map (\<lambda>i. sum_list (map (\<lambda>j. (entry A i j)\<^sup>2) [0..<ncols A])) [0..<nrows A])"

definition plus_float :: "pyfloat \<Rightarrow> real \<Rightarrow> pyfloat" where
  "plus_float v x = (case v of NaN \<Rightarrow> NaN | Num u \<Rightarrow> Num (u + x))"

definition cost_function :: "'ae dac \<Rightarrow> mat \<Rightarrow> mat list option \<Rightarrow> error + pyfloat" where
  "cost_function s y wts_arg =
     (let wts = wts_or_self s wts_arg
      in bind (index_last (act s)) (\<lambda>a.
         bind (ew (\<lambda>u v. u * v) (smul (- 1) y) (log_mat a)) (\<lambda>t.
         bind (index_last wts) (\<lambda>w.
         Inr (if log_finite a (nrows t) (ncols t)
              then plus_float (np_mean (column_sums t)) (0.5 * decay s * sum_squares (drop_row w))
              else NaN)))))"

text \<open>
  \<open>bprop\<close>, lines 69 to 95. The lists \<open>wts\<close> and \<open>act\<close> of the loop are the reversed
  ones; \<open>dE_dW\<close> starts as \<open>len(wts)*[None]\<close>. The loop of line 87 runs over
  \<open>enumerate(act[1:])\<close> and hands \<open>dE_dz\<close> from one layer to the next.
\<close>

fun bprop_loop :: "mat list \<Rightarrow> nat \<Rightarrow> nat \<Rightarrow> mat list \<Rightarrow> mat option list \<Rightarrow> mat \<Rightarrow>
    error + mat option list \<times> mat" where
  "bprop_loop wts m i [] dE_dW dE_dz = Inr (dE_dW, dE_dz)"
| "bprop_loop wts m i (a # as) dE_dW dE_dz =
     bind (reciprocal m) (\<lambda>c.
     bind (np_dot a (transpose_mat dE_dz)) (\<lambda>d.
     bind (store dE_dW i (Some (smul c d))) (\<lambda>dE_dW'.
     bind (index wts i) (\<lambda>w.
     bind (np_dot w dE_dz) (\<lambda>dE_da.
     bind (ew (\<lambda>u v. u * v) dE_da a) (\<lambda>t.
     bind (ew (\<lambda>u v. u * v) t (rsub 1 a)) (\<lambda>u.
     bprop_loop wts m (i + 1) as dE_dW' (drop_row u))))))))"

definition bprop :: "'ae dac \<Rightarrow> mat \<Rightarrow> mat \<Rightarrow> mat list option \<Rightarrow> error + mat option list" where
  "bprop s X y wts_arg =
     (let wts = rev (wts_or_self s wts_arg);
          act_rev = rev (act s);
          m = ncols X;
          dE_dW = replicate (length wts) None
      in bind (index act_rev 0) (\<lambda>a0.
         bind (ew (\<lambda>u v. u - v) a0 y) (\<lambda>dE_dz0.
         bind (if 1 < length wts then bprop_loop wts m 0 (tl act_rev) dE_dW dE_dz0
               else Inr (dE_dW, dE_dz0)) (\<lambda>(dE_dW1, dE_dz).
         bind (reciprocal m) (\<lambda>c.
         bind (np_dot X (transpose_mat dE_dz)) (\<lambda>d.
         bind (store_last dE_dW1 (Some (smul c d))) (\<lambda>dE_dW2.
         bind (iadd_from_row1 (smul c d) (smul (decay s) (drop_row (last wts)))) (\<lambda>g.
         bind (store_last dE_dW2 (Some g)) (\<lambda>dE_dW3.
         Inr (rev dE_dW3))))))))))"

text \<open>
  Back-propagation in the words of the specification, entry by entry. The error of
  the output layer is the softmax activation minus the labels. The error of an
  earlier layer \<open>l\<close> is the error of layer \<open>l + 1\<close> propagated back through the
  weights, times \<open>a\<cdot>(1 - a)\<close> for the activation \<open>a\<close> of layer \<open>l\<close>, without the bias
  row: entry \<open>i\<close> of the error belongs to row \<open>i + 1\<close> of the weights and of the
  activation. The gradient of layer \<open>l\<close> is the product of the layer's input (the
  data for the first layer, the activation of the layer before otherwise) with the
  transposed error, divided by the number of examples.
\<close>

function delta :: "mat list \<Rightarrow> mat list \<Rightarrow> mat \<Rightarrow> nat \<Rightarrow> mat" where
  "delta wts acts y l =
     (if length acts \<le> l + 1
      then mk (nrows (last acts)) (ncols (last acts)) (\<lambda>i j. entry (last acts) i j - entry y i j)
      else (let d = delta wts acts y (l + 1); a = acts ! l; w = wts ! (l + 1)
            in mk (nrows a - 1) (ncols a)
                 (\<lambda>i j. (\<Sum>k\<leftarrow>[0..<ncols w]. entry w (i + 1) k * entry d k j)
                        * (entry a (i + 1) j * (1 - entry a (i + 1) j)))))"
  by pat_completeness auto
termination
  by (relation "measure (\<lambda>(wts, acts, y, l). length acts - l)") auto

declare delta.simps [simp del]

definition layer_input :: "mat \<Rightarrow> mat list \<Rightarrow> nat \<Rightarrow> mat" where
  "layer_input X acts l = (if l = 0 then X else acts ! (l - 1))"

definition layer_gradient :: "mat \<Rightarrow> mat list \<Rightarrow> mat list \<Rightarrow> mat \<Rightarrow> nat \<Rightarrow> mat" where
  "layer_gradient X wts acts y l =
     (let inp = layer_input X acts l; d = delta wts acts y l
      in mk (nrows inp) (nrows d)
           (\<lambda>i j. (\<Sum>c\<leftarrow>[0..<ncols inp]. entry inp i c * entry d j c) / real (ncols X)))"

text \<open>
  A gradient \<open>G\<close> with the decay term of the weight matrix \<open>W\<close> added: \<open>dc\<close> times
  the weight in every row but the bias row.
\<close>

definition with_decay :: "real \<Rightarrow> mat \<Rightarrow> mat \<Rightarrow> mat" where
  "with_decay dc W G =
     mk (nrows G) (ncols G) (\<lambda>i j. entry G i j + (if i = 0 then 0 else dc * entry W i j))"

text \<open>
  The values that the loop of \<open>bprop\<close> computes, written with the array operations
  of the code: \<open>loop_error\<close> is \<open>dE_dz\<close> when layer \<open>l\<close> is reached, and
  \<open>loop_gradient\<close> is the matrix stored in \<open>dE_dW\<close> for that layer.
\<close>

function loop_error :: "mat list \<Rightarrow> mat list \<Rightarrow> mat \<Rightarrow> nat \<Rightarrow> mat" where
  "loop_error wts acts y l =
     (if length acts \<le> l + 1 then minus_mat (last acts) y
      else drop_row (times_mat (times_mat (mdot (wts ! (l + 1)) (loop_error wts acts y (l + 1))) (acts ! l))
                       (rsub 1 (acts ! l))))"
  by pat_completeness auto
termination
  by (relation "measure (\<lambda>(wts, acts, y, l). length acts - l)") auto

declare loop_error.simps [simp del]

definition loop_gradient :: "mat \<Rightarrow> mat list \<Rightarrow> mat list \<Rightarrow> mat \<Rightarrow> nat \<Rightarrow> mat" where
  "loop_gradient X wts acts y l =
     smul (1 / real (ncols X)) (mdot (layer_input X acts l) (transpose_mat (loop_error wts acts y l)))"

text \<open>
  All gradients that \<open>bprop\<close> returns, in layer order: the first one has
  \<open>decay\<close> times the first weight matrix added below its bias row, as line 92 does
  on the reversed lists.
\<close>

definition gradients :: "real \<Rightarrow> mat \<Rightarrow> mat list \<Rightarrow> mat list \<Rightarrow> mat \<Rightarrow> mat list" where
  "gradients dc X wts acts y =
     map (\<lambda>l. if l = 0 then add_below (loop_gradient X wts acts y 0) (smul dc (drop_row (wts ! 0)))
               else loop_gradient X wts acts y l) [0..<length wts]"

text \<open>
  The list \<open>dE_dW\<close> during the loop, when the layers above \<open>n\<close> are done: it is
  indexed from the last layer backwards.
\<close>

definition pending :: "mat \<Rightarrow> mat list \<Rightarrow> mat list \<Rightarrow> mat \<Rightarrow> nat \<Rightarrow> mat option list" where
  "pending X wts acts y n =
     map (\<lambda>k. if k < length wts - 1 - n then Some (loop_gradient X wts acts y (length wts - 1 - k))
               else None) [0..<length wts]"

text \<open>
  The shapes of a network of topology \<open>ns\<close> on a batch of \<open>m\<close> examples: the data
  and the hidden activations carry the bias row, the last activation and the labels
  have one row per class.
\<close>

definition net_shapes :: "nat list \<Rightarrow> nat \<Rightarrow> mat \<Rightarrow> mat \<Rightarrow> mat list \<Rightarrow> mat list \<Rightarrow> bool" where
  "net_shapes ns m X y wts acts \<longleftrightarrow>
     1 \<le> length wts \<and> length ns = length wts + 1 \<and> length acts = length wts \<and> 0 < m \<and>
     shape X = (ns ! 0 + 1, m) \<and> shape y = (ns ! length wts, m) \<and>
     list_all (\<lambda>l. shape (wts ! l) = (ns ! l + 1, ns ! (l + 1))) [0..<length wts] \<and>
     list_all (\<lambda>l. shape (acts ! l) = (ns ! (l + 1) + 1, m)) [0..<length wts - 1] \<and>
     shape (acts ! (length wts - 1)) = (ns ! length wts, m)"

text \<open>
  A classifier with one input, one hidden unit and two classes, on a batch of one
  example, with the activations of a forward propagation in the cache: the hidden
  unit's input is \<open>-2 + 2\<cdot>1 = 0\<close>, so its activation is 1/2 under the bias entry 1,
  and both classes get the input \<open>3/2\<close>, so the softmax gives 1/2 to each.
\<close>

definition small_X :: mat where
  "small_X = Mat 2 1 [[1], [1]]"

definition small_y :: mat where
  "small_y = Mat 2 1 [[1], [0]]"

definition small_net :: "demo_ae dac" where
  "small_net = \<lparr> stacked_ae = [Some (DemoAE 1 1 0 0 0 [])],
      activ = [Sigmoid, Softmax], self_n_nodes = [1, 1, 2],
      self_wts = [Mat 2 1 [[- 2], [2]], Mat 2 2 [[0, 0], [3, 3]]],
      act = [Mat 2 1 [[1], [1 / 2]], Mat 2 1 [[1 / 2], [1 / 2]]],
      decay = 1 \<rparr>"

text \<open>
  The same topology on a batch of two examples, with cached activations away from
  1/2 and an output error that does not cancel in the hidden layer, so that every
  factor of the back-propagation shows in the gradients.
\<close>

definition check_X :: mat where
  "check_X = Mat 2 2 [[1, 1], [2, - 1]]"

definition check_y :: mat where
  "check_y = Mat 2 2 [[1, 0], [0, 1]]"

definition check_net :: "demo_ae dac" where
  "check_net = \<lparr> stacked_ae = [Some (DemoAE 1 1 0 0 0 [])],
      activ = [Sigmoid, Softmax], self_n_nodes = [1, 1, 2],
      self_wts = [Mat 2 1 [[1], [2]], Mat 2 2 [[1, - 1], [2, 3]]],
      act = [Mat 2 2 [[1, 1], [1 / 4, 3 / 4]], Mat 2 2 [[1 / 4, 2 / 3], [3 / 4, 1 / 3]]],
      decay = 1 / 2 \<rparr>"


section \<open>Properties of pre-training\<close>

lemma bind_Inr_iff: "bind r f = Inr y \<longleftrightarrow> (\<exists>v. r = Inr v \<and> f v = Inr y)"
  by (cases r) (simp_all add: bind_def)

lemma store_Inr_iff: "store xs i v = Inr ys \<longleftrightarrow> i < length xs \<and> ys = xs[i := v]"
  by (auto simp: store_def)

lemma index_Inr_iff: "index xs i = Inr v \<longleftrightarrow> i < length xs \<and> v = xs ! i"
  by (auto simp: index_def)

lemma take_Suc_update:
  "i < length xs \<Longrightarrow> take (Suc i) (xs[i := v]) = take i xs @ [v]"
  by (simp add: take_Suc_conv_app_nth)

lemma pre_train_loop_layerwise:
  "pre_train_loop C method n_iter learn_rate alpha i rest s X = Inr s' \<Longrightarrow>
   length (stacked_ae s) = Suc i + length rest \<Longrightarrow>
   \<exists>fs. layerwise C method n_iter learn_rate alpha (Suc i) rest X = Inr fs \<and>
        length fs = length rest \<and>
        s' = s\<lparr>stacked_ae := take (Suc i) (stacked_ae s) @ map (Some \<circ> fst) fs,
               self_wts := take (Suc i) (self_wts s) @ map snd fs
                           @ drop (Suc i + length rest) (self_wts s)\<rparr>"
proof (induction rest arbitrary: i s X)
  case Nil
  then show ?case by simp
next
  case (Cons a rest)
  from Cons.prems(1) obtain ae n l al ae' w X' where
    a: "attr a = Inr ae" and n: "subscript n_iter i = Inr n"
    and l: "subscript learn_rate i = Inr l" and al: "subscript alpha i = Inr al"
    and f: "fit C ae X method n l al = Inr ae'" and w: "index (ae_wts C ae') 0 = Inr w"
    and st: "Suc i < length (self_wts s)"
    and t: "transform C ae' X = Inr X'"
    and rec: "pre_train_loop C method n_iter learn_rate alpha (Suc i) rest
       (s\<lparr>stacked_ae := (stacked_ae s)[Suc i := Some ae'], 
          self_wts := (self_wts s)[Suc i := w]\<rparr>) X' = Inr s'"
    by (auto simp: bind_Inr_iff store_Inr_iff)
  let ?s1 = "s\<lparr>stacked_ae := (stacked_ae s)[Suc i := Some ae'], 
          self_wts := (self_wts s)[Suc i := w]\<rparr>"
  have len: "length (stacked_ae ?s1) = Suc (Suc i) + length rest"
    using Cons.prems(2) by simp
  from Cons.IH[OF rec len] obtain fs where
    fs: "layerwise C method n_iter learn_rate alpha (Suc (Suc i)) rest X' = Inr fs"
    and lfs: "length fs = length rest"
    and s': "s' = ?s1\<lparr>stacked_ae := take (Suc (Suc i)) (stacked_ae ?s1) @ map (Some \<circ> fst) fs,
               self_wts := take (Suc (Suc i)) (self_wts ?s1) @ map snd fs
                           @ drop (Suc (Suc i) + length rest) (self_wts ?s1)\<rparr>"
    by blast
  have i1: "Suc i < length (stacked_ae s)" using Cons.prems(2) by simp
  have lw: "layerwise C method n_iter learn_rate alpha (Suc i) (a # rest) X = Inr ((ae', w) # fs)"
    using a n l al f w t fs by (simp add: bind_def)
  have "s' = s\<lparr>stacked_ae := take (Suc i) (stacked_ae s) @ map (Some \<circ> fst) ((ae', w) # fs),
               self_wts := take (Suc i) (self_wts s) @ map snd ((ae', w) # fs)
                           @ drop (Suc i + length (a # rest)) (self_wts s)\<rparr>"
    unfolding s' using i1 st by (simp add: take_Suc_update)
  with lw lfs show ?case by (intro exI[of _ "(ae', w) # fs"]) simp
qed

lemma pre_train_layerwise:
  assumes "pre_train C s (Some X) x_data method n_iter learn_rate alpha = Inr s'"
  shows "\<exists>fs. layerwise C method n_iter learn_rate alpha 0 (stacked_ae s) X = Inr fs \<and>
        length fs = length (stacked_ae s) \<and>
        s' = s\<lparr>stacked_ae := map (Some \<circ> fst) fs,
               self_wts := map snd fs @ drop (length fs) (self_wts s)\<rparr>"
proof -
  from assms obtain a0 ae0 n l al ae0' X_tf w where
    a0: "index (stacked_ae s) 0 = Inr a0" and a: "attr a0 = Inr ae0"
    and n: "subscript n_iter 0 = Inr n"
    and l: "subscript learn_rate 0 = Inr l" and al: "subscript alpha 0 = Inr al"
    and f: "fit C ae0 X method n l al = Inr ae0'" 
    and t: "transform C ae0' X = Inr X_tf"
    and w: "index (ae_wts C ae0') 0 = Inr w"
    and st: "0 < length (self_wts s)"
    and rec: "pre_train_loop C method n_iter learn_rate alpha 0
            (tl ((stacked_ae s)[0 := Some ae0']))
            (s\<lparr>stacked_ae := (stacked_ae s)[0 := Some ae0'], self_wts := (self_wts s)[0 := w]\<rparr>) X_tf = Inr s'"
    by (auto simp: pre_train_def bind_Inr_iff store_Inr_iff)
  from a0 obtain rest where sa: "stacked_ae s = a0 # rest"
    by (cases "stacked_ae s") (auto simp: index_Inr_iff)
  from st obtain w0 ws where sw: "self_wts s = w0 # ws"
    by (cases "self_wts s") auto
  let ?s1 = "s\<lparr>stacked_ae := (stacked_ae s)[0 := Some ae0'], self_wts := (self_wts s)[0 := w]\<rparr>"
  have rec': "pre_train_loop C method n_iter learn_rate alpha 0 rest ?s1 X_tf = Inr s'"
    using rec sa by simp
  have len: "length (stacked_ae ?s1) = Suc 0 + length rest" using sa by simp
  from pre_train_loop_layerwise[OF rec' len] obtain fs where
    fs: "layerwise C method n_iter learn_rate alpha (Suc 0) rest X_tf = Inr fs"
    and lfs: "length fs = length rest"
    and s': "s' = ?s1\<lparr>stacked_ae := take (Suc 0) (stacked_ae ?s1) @ map (Some \<circ> fst) fs,
               self_wts := take (Suc 0) (self_wts ?s1) @ map snd fs
                           @ drop (Suc 0 + length rest) (self_wts ?s1)\<rparr>"
    by blast
  have lw: "layerwise C method n_iter learn_rate alpha 0 (stacked_ae s) X = Inr ((ae0', w) # fs)"
    using sa a n l al f w t fs by (simp add: bind_def)
  have "s' = s\<lparr>stacked_ae := map (Some \<circ> fst) ((ae0', w) # fs),
               self_wts := map snd ((ae0', w) # fs) @ drop (length ((ae0', w) # fs)) (self_wts s)\<rparr>"
    unfolding s' using sa sw lfs by simp
  with lw lfs sa show ?thesis by (intro exI[of _ "(ae0', w) # fs"]) simp
qed

lemma layerwise_nth:
  "layerwise C method n_iter learn_rate alpha j as X = Inr fs \<Longrightarrow> i < length as \<Longrightarrow>
   \<exists>ae Xi n l al. as ! i = Some ae \<and>
     subscript n_iter (j + i - 1) = Inr n \<and> subscript learn_rate (j + i - 1) = Inr l \<and>
     subscript alpha (j + i - 1) = Inr al \<and>
     fit C ae Xi method n l al = Inr (fst (fs ! i)) \<and>
     index (ae_wts C (fst (fs ! i))) 0 = Inr (snd (fs ! i))"
proof (induction as arbitrary: j X fs i)
  case Nil
  then show ?case by simp
next
  case (Cons a as)
  from Cons.prems(1) obtain ae n l al ae' w X' fs' where
    a: "attr a = Inr ae" and n: "subscript n_iter (j - 1) = Inr n"
    and l: "subscript learn_rate (j - 1) = Inr l" and al: "subscript alpha (j - 1) = Inr al"
    and f: "fit C ae X method n l al = Inr ae'" and w: "index (ae_wts C ae') 0 = Inr w"
    and rec: "layerwise C method n_iter learn_rate alpha (j + 1) as X' = Inr fs'"
    and fs: "fs = (ae', w) # fs'"
    by (auto simp: bind_Inr_iff)
  show ?case
  proof (cases i)
    case 0
    from a have "a = Some ae" by (cases a) (simp_all add: attr_def)
    with 0 n l al f w fs show ?thesis by auto
  next
    case (Suc k)
    with Cons.prems(2) have k: "k < length as" by simp
    from Cons.IH[OF rec k] Suc fs show ?thesis by simp
  qed
qed





lemma demo_pre_train:
  "pre_train demo_class demo_s0 (Some (const_mat 2 3 1)) (None :: unit option) ''L-BFGS''
     (Some [10, 20]) (Some [1, 2]) (Some [1 / 2, 1 / 4]) = Inr demo_s1"
  by code_simp

text \<open>
  C10. Calling \<open>pre_train\<close> with \<open>X = None\<close> returns without an error and leaves the
  whole instance as it was, whatever the other arguments are.
\<close>

theorem pre_train_None_unchanged:
  "pre_train C s None x_data method n_iter learn_rate alpha = Inr s"
  by (simp add: pre_train_def)

text \<open>
  C6. When \<open>pre_train\<close> with data \<open>X\<close> returns, every pretrained layer \<open>i\<close> (one per
  stacked autoencoder) holds in \<open>self.wts_[i]\<close> the matrix at index 0 of the weight
  collection of stacked autoencoder \<open>i\<close> as that autoencoder is after training.
\<close>

theorem pre_train_copies_encoding:
  assumes "pre_train C s (Some X) x_data method n_iter learn_rate alpha = Inr s'"
    and "i < length (stacked_ae s)"
  shows "\<exists>ae. stacked_ae s' ! i = Some ae \<and> index (ae_wts C ae) 0 = Inr (self_wts s' ! i)"
proof -
  from pre_train_layerwise[OF assms(1)] obtain fs where
    lw: "layerwise C method n_iter learn_rate alpha 0 (stacked_ae s) X = Inr fs"
    and len: "length fs = length (stacked_ae s)"
    and s': "s' = s\<lparr>stacked_ae := map (Some \<circ> fst) fs,
               self_wts := map snd fs @ drop (length fs) (self_wts s)\<rparr>"
    by blast
  from layerwise_nth[OF lw assms(2)]
  have "index (ae_wts C (fst (fs ! i))) 0 = Inr (snd (fs ! i))" by blast
  moreover have "stacked_ae s' ! i = Some (fst (fs ! i))"
    using s' len assms(2) by simp
  moreover have "self_wts s' ! i = snd (fs ! i)"
    using s' len assms(2) by (simp add: nth_append)
  ultimately show ?thesis by simp
qed

theorem pre_train_copies_encoding_witness:
  "pre_train demo_class demo_s0 (Some (const_mat 2 3 1)) (None :: unit option) ''L-BFGS''
     (Some [10, 20]) (Some [1, 2]) (Some [1 / 2, 1 / 4]) = Inr demo_s1 \<and>
   (1::nat) < length (stacked_ae demo_s0) \<and>
   (\<exists>ae. stacked_ae demo_s1 ! 1 = Some ae \<and>
         index (ae_wts demo_class ae) 0 = Inr (self_wts demo_s1 ! 1))"
proof -
  have l: "(1::nat) < length (stacked_ae demo_s0)" by (simp add: demo_s0_def)
  from pre_train_copies_encoding[OF demo_pre_train l] demo_pre_train l show ?thesis by blast
qed



text \<open>
  C2, as amended. \<open>pre_train\<close> with data \<open>X\<close> trains the stacked autoencoders one
  after the other, each on the data transformed by the one before it, and stores each
  one's encoding weight matrix in the layer of the same index. Nothing else
  changes: the weights of the layers after the pretrained ones, the activation
  cache and the decay are as before the call. No fine-tuning takes place.
\<close>

theorem pre_train_is_layerwise_only:
  assumes "pre_train C s (Some X) x_data method n_iter learn_rate alpha = Inr s'"
  shows "\<exists>fs. layerwise C method n_iter learn_rate alpha 0 (stacked_ae s) X = Inr fs \<and>
        length fs = length (stacked_ae s) \<and>
        s' = s\<lparr>stacked_ae := map (Some \<circ> fst) fs,
               self_wts := map snd fs @ drop (length fs) (self_wts s)\<rparr>"
  using assms by (rule pre_train_layerwise)

theorem pre_train_is_layerwise_only_witness:
  "pre_train demo_class demo_s0 (Some (const_mat 2 3 1)) (None :: unit option) ''L-BFGS''
     (Some [10, 20]) (Some [1, 2]) (Some [1 / 2, 1 / 4]) = Inr demo_s1 \<and>
   (\<exists>fs. layerwise demo_class ''L-BFGS'' (Some [10, 20]) (Some [1, 2]) (Some [1 / 2, 1 / 4]) 0
           (stacked_ae demo_s0) (const_mat 2 3 1) = Inr fs \<and>
        length fs = length (stacked_ae demo_s0) \<and>
        demo_s1 = demo_s0\<lparr>stacked_ae := map (Some \<circ> fst) fs,
               self_wts := map snd fs @ drop (length fs) (self_wts demo_s0)\<rparr>)"
  using pre_train_is_layerwise_only[OF demo_pre_train] demo_pre_train by blast

text \<open>
  C2, as stated, fails: on the classifier with two pretrained layers and a softmax
  layer, \<open>pre_train\<close> returns with the softmax layer's weights and the activation
  cache untouched and with the two pretrained layers equal to the encoding
  matrices; the stack has not been fine-tuned.
\<close>

theorem pre_train_fine_tune_counterexample:
  "pre_train demo_class demo_s0 (Some (const_mat 2 3 1)) (None :: unit option) ''L-BFGS''
     (Some [10, 20]) (Some [1, 2]) (Some [1 / 2, 1 / 4]) = Inr demo_s1 \<and>
   self_wts demo_s1 = [const_mat 3 2 (21 / 2), const_mat 3 1 (21 / 2), self_wts demo_s0 ! 2] \<and>
   act demo_s1 = act demo_s0"
  by code_simp


section \<open>Properties of the array operations\<close>

lemma nrows_mk [simp]: "nrows (mk r c f) = r"
  and ncols_mk [simp]: "ncols (mk r c f) = c"
  by (simp_all add: mk_def)

lemma entry_mk [simp]: "i < r \<Longrightarrow> j < c \<Longrightarrow> entry (mk r c f) i j = f i j"
  by (simp add: mk_def entry_def)

lemma wf_mk [simp]: "wf_mat (mk r c f)"
  by (auto simp: mk_def wf_mat_def)

lemma argmax_scan_max:
  "b < length pre \<Longrightarrow> i = length pre \<Longrightarrow> bv = pre ! b \<Longrightarrow> (\<forall>k < length pre. pre ! k \<le> bv) \<Longrightarrow>
   (\<forall>k < b. pre ! k < bv) \<Longrightarrow>
   argmax_scan xs i b bv < length (pre @ xs) \<and>
   (\<forall>k < length (pre @ xs). (pre @ xs) ! k \<le> (pre @ xs) ! argmax_scan xs i b bv) \<and>
   (\<forall>k < argmax_scan xs i b bv. (pre @ xs) ! k < (pre @ xs) ! argmax_scan xs i b bv)"
proof (induction xs arbitrary: pre i b bv)
  case Nil
  then show ?case by simp
next
  case (Cons x xs)
  show ?case
  proof (cases "bv < x")
    case True
    have "argmax_scan xs (length (pre @ [x])) (length pre) x < length ((pre @ [x]) @ xs) \<and>
        (\<forall>k < length ((pre @ [x]) @ xs). ((pre @ [x]) @ xs) ! k \<le>
            ((pre @ [x]) @ xs) ! argmax_scan xs (length (pre @ [x])) (length pre) x) \<and>
        (\<forall>k < argmax_scan xs (length (pre @ [x])) (length pre) x. ((pre @ [x]) @ xs) ! k <
            ((pre @ [x]) @ xs) ! argmax_scan xs (length (pre @ [x])) (length pre) x)"
    proof (rule Cons.IH)
      show "\<forall>k<length (pre @ [x]). (pre @ [x]) ! k \<le> x"
        using Cons.prems(4) True by (auto simp: nth_append less_Suc_eq)
      show "\<forall>k<length pre. (pre @ [x]) ! k < x"
        using Cons.prems(4) True by (auto simp: nth_append)
    qed simp_all
    with True Cons.prems(2) show ?thesis by simp
  next
    case False
    have "argmax_scan xs (length (pre @ [x])) b bv < length ((pre @ [x]) @ xs) \<and>
        (\<forall>k < length ((pre @ [x]) @ xs). ((pre @ [x]) @ xs) ! k \<le>
            ((pre @ [x]) @ xs) ! argmax_scan xs (length (pre @ [x])) b bv) \<and>
        (\<forall>k < argmax_scan xs (length (pre @ [x])) b bv. ((pre @ [x]) @ xs) ! k <
            ((pre @ [x]) @ xs) ! argmax_scan xs (length (pre @ [x])) b bv)"
    proof (rule Cons.IH)
      show "\<forall>k<length (pre @ [x]). (pre @ [x]) ! k \<le> bv"
        using Cons.prems(4) False by (auto simp: nth_append less_Suc_eq)
      show "bv = (pre @ [x]) ! b" using Cons.prems(1,3) by (simp add: nth_append)
      show "\<forall>k<b. (pre @ [x]) ! k < bv"
        using Cons.prems(1,5) by (auto simp: nth_append)
    qed (use Cons.prems(1) in simp_all)
    with False Cons.prems(2) show ?thesis by simp
  qed
qed

lemma argmax_col_max:
  assumes "0 < nrows A"
  shows "argmax_col A j < nrows A \<and> (\<forall>i < nrows A. entry A i j \<le> entry A (argmax_col A j) j) \<and>
         (\<forall>i < argmax_col A j. entry A i j < entry A (argmax_col A j) j)"
proof -
  have col: "column A j = [entry A 0 j] @ tl (column A j)"
    using assms by (cases "nrows A") (simp_all add: column_def upt_rec)
  have len: "length (column A j) = nrows A" by (simp add: column_def)
  have nth: "column A j ! i = entry A i j" if "i < nrows A" for i
    using that by (simp add: column_def)
  have "argmax_scan (tl (column A j)) 1 0 (entry A 0 j) < length ([entry A 0 j] @ tl (column A j)) \<and>
    (\<forall>k < length ([entry A 0 j] @ tl (column A j)). ([entry A 0 j] @ tl (column A j)) ! k
        \<le> ([entry A 0 j] @ tl (column A j)) ! argmax_scan (tl (column A j)) 1 0 (entry A 0 j)) \<and>
    (\<forall>k < argmax_scan (tl (column A j)) 1 0 (entry A 0 j). ([entry A 0 j] @ tl (column A j)) ! k
        < ([entry A 0 j] @ tl (column A j)) ! argmax_scan (tl (column A j)) 1 0 (entry A 0 j))"
    by (rule argmax_scan_max) simp_all
  then have r: "argmax_col A j < length (column A j)"
    and m: "\<forall>k < length (column A j). column A j ! k \<le> column A j ! argmax_col A j"
    and f: "\<forall>k < argmax_col A j. column A j ! k < column A j ! argmax_col A j"
    unfolding argmax_col_def col[symmetric] by blast+
  from r have r': "argmax_col A j < nrows A" by (simp add: len)
  have "\<forall>i < nrows A. entry A i j \<le> entry A (argmax_col A j) j"
    using m r' by (simp add: len nth)
  moreover have "\<forall>i < argmax_col A j. entry A i j < entry A (argmax_col A j) j"
  proof (intro allI impI)
    fix i assume i: "i < argmax_col A j"
    then have "i < nrows A" using r' by simp
    with f i r' show "entry A i j < entry A (argmax_col A j) j" by (simp add: nth)
  qed
  ultimately show ?thesis using r' by blast
qed

lemma sum_indicator:
  "sum_list (map (\<lambda>i. if P i then 1 else 0) xs) = real (length (filter P xs))"
  by (induction xs) simp_all

lemma eq_indicator_same_length:
  assumes "length p = length q"
  shows "eq_indicator p q = map (\<lambda>i. if p ! i = q ! i then 1 else 0) [0..<length p]"
proof -
  have "(if length p = 1 then 0 else i) = i" if "i < length p" for i
    using that by auto
  moreover have "(if length q = 1 then 0 else i) = i" if "i < length p" for i
    using that assms by auto
  ultimately show ?thesis
    using assms by (simp add: eq_indicator_def bdim_def bmax_def cong: map_cong)
qed

lemma eq_indicator_range: "\<forall>h \<in> set (eq_indicator p q). 0 \<le> h \<and> h \<le> 1"
  by (auto simp: eq_indicator_def)

lemma eq_indicator_right_single:
  assumes "length q = 1" and "length p \<noteq> 1"
  shows "eq_indicator p q = eq_indicator p (replicate (length p) (q ! 0))"
proof -
  have "eq_indicator p q = map (\<lambda>i. if p ! i = q ! 0 then 1 else 0) [0..<length p]"
    using assms by (simp add: eq_indicator_def bdim_def bmax_def)
  also have "\<dots> = map (\<lambda>i. if p ! i = replicate (length p) (q ! 0) ! i then 1 else 0) [0..<length p]"
    by (rule map_cong) simp_all
  also have "\<dots> = eq_indicator p (replicate (length p) (q ! 0))"
    by (simp add: eq_indicator_same_length)
  finally show ?thesis .
qed

lemma eq_indicator_left_single:
  assumes "length p = 1" and "length q \<noteq> 1"
  shows "eq_indicator p q = eq_indicator (replicate (length q) (p ! 0)) q"
proof -
  have "eq_indicator p q = map (\<lambda>i. if p ! 0 = q ! i then 1 else 0) [0..<length q]"
    using assms by (simp add: eq_indicator_def bdim_def bmax_def)
  also have "\<dots> = map (\<lambda>i. if replicate (length q) (p ! 0) ! i = q ! i then 1 else 0) [0..<length q]"
    by (rule map_cong) simp_all
  also have "\<dots> = eq_indicator (replicate (length q) (p ! 0)) q"
    by (simp add: eq_indicator_same_length)
  finally show ?thesis .
qed

lemma eq_indicator_no_broadcast:
  assumes "length p \<noteq> length q" and "length p \<noteq> 1" and "length q \<noteq> 1"
  shows "eq_indicator p q = [0]"
  using assms by (simp add: eq_indicator_def bdim_def)

lemma eq_indicator_empty:
  "eq_indicator p q = [] \<longleftrightarrow>
     (length p = 0 \<and> length q \<le> 1) \<or> (length p = 1 \<and> length q = 0)"
proof -
  have n: "bdim a b \<and> bmax a b = 0 \<longleftrightarrow> (a = 0 \<and> b \<le> 1) \<or> (a = 1 \<and> b = 0)" for a b :: nat
    unfolding bdim_def bmax_def by (cases "a = 1") auto
  have "eq_indicator p q = [] \<longleftrightarrow> bdim (length p) (length q) \<and> bmax (length p) (length q) = 0"
    unfolding eq_indicator_def by (cases "bdim (length p) (length q)") simp_all
  then show ?thesis by (simp only: n)
qed

lemma sum_list_unit_range:
  fixes xs :: "real list"
  shows "\<forall>h \<in> set xs. 0 \<le> h \<and> h \<le> 1 \<Longrightarrow> 0 \<le> sum_list xs \<and> sum_list xs \<le> real (length xs)"
  by (induction xs) auto

lemma rate_in_unit_interval:
  assumes "one_minus (np_mean (eq_indicator p q)) = Num r"
  shows "0 \<le> r \<and> r \<le> 1"
proof -
  let ?h = "eq_indicator p q"
  from assms have ne: "?h \<noteq> []" and r: "r = 1 - sum_list ?h / real (length ?h)"
    by (auto simp: one_minus_def np_mean_def split: if_splits)
  from ne have pos: "0 < real (length ?h)" by simp
  from sum_list_unit_range[OF eq_indicator_range[of p q]]
  have s: "0 \<le> sum_list ?h" "sum_list ?h \<le> real (length ?h)" by simp_all
  have "0 \<le> sum_list ?h / real (length ?h)" using s(1) by simp
  moreover have "sum_list ?h / real (length ?h) \<le> 1" using s(2) pos by simp
  ultimately show ?thesis unfolding r by simp
qed

lemma length_filter_all:
  "length (filter P xs) = length xs \<longleftrightarrow> (\<forall>x \<in> set xs. P x)"
proof (induction xs)
  case Nil
  then show ?case by simp
next
  case (Cons x xs)
  have "length (filter P xs) \<le> length xs" by simp
  then have "length (filter P xs) \<noteq> Suc (length xs)" by linarith
  with Cons show ?case by auto
qed

lemma ratio_bounds:
  fixes h n :: nat
  assumes "h \<le> n" and "0 < n"
  shows "0 \<le> 1 - real h / real n" and "1 - real h / real n \<le> 1"
    and "1 - real h / real n = 0 \<longleftrightarrow> h = n"
proof -
  have a: "real h / real n \<le> 1" using assms by simp
  then show "0 \<le> 1 - real h / real n" by simp
  show "1 - real h / real n \<le> 1" by simp
  have "real h / real n = 1 \<longleftrightarrow> h = n" using assms(2) by auto
  then show "1 - real h / real n = 0 \<longleftrightarrow> h = n" by simp
qed

lemma rate_bounds:
  fixes p q :: "nat list"
  assumes "length p = length q" and "0 < length p"
  defines "h \<equiv> length (filter (\<lambda>i. p ! i = q ! i) [0..<length p])"
  shows "0 \<le> 1 - real h / real (length p) \<and> 1 - real h / real (length p) \<le> 1 \<and>
         (1 - real h / real (length p) = 0 \<longleftrightarrow> p = q)"
proof -
  have le: "h \<le> length p"
    unfolding h_def using length_filter_le[of "\<lambda>i. p ! i = q ! i" "[0..<length p]"] by simp
  have "h = length p \<longleftrightarrow> (\<forall>i < length p. p ! i = q ! i)"
    unfolding h_def using length_filter_all[of "\<lambda>i. p ! i = q ! i" "[0..<length p]"] by auto
  then have eq: "h = length p \<longleftrightarrow> p = q"
    using assms(1) by (simp add: list_eq_iff_nth_eq)
  from ratio_bounds[OF le assms(2)] eq show ?thesis by blast
qed


section \<open>Properties of prediction\<close>

lemma prepend_ones_entries:
  "nrows (prepend_ones X) = nrows X + 1" "ncols (prepend_ones X) = ncols X"
  "j < ncols X \<Longrightarrow> entry (prepend_ones X) 0 j = 1"
  "i < nrows X \<Longrightarrow> j < ncols X \<Longrightarrow> entry (prepend_ones X) (Suc i) j = entry X i j"
  by (simp_all add: prepend_ones_def)

lemma predictions_argmax:
  assumes "0 < nrows a"
  shows "argmax_axis0 a = Inr (predictions a)"
    and "\<forall>j < ncols a. predictions a ! j < nrows a \<and>
           (\<forall>i < nrows a. entry a i j \<le> entry a (predictions a ! j) j) \<and>
           (\<forall>i < predictions a ! j. entry a i j < entry a (predictions a ! j) j)"
  using assms argmax_col_max[OF assms] by (simp_all add: argmax_axis0_def predictions_def)

lemma predict_unlabelled:
  assumes "compute_activations s (prepend_ones X) = Inr s1"
    and "act s1 \<noteq> []" and "0 < nrows (last (act s1))"
  shows "predict compute_activations s X None = Inr ((predictions (last (act s1)), None), s1)"
  using assms predictions_argmax(1)[OF assms(3)]
  by (simp add: predict_def bind_def index_last_def)

lemma predict_labelled:
  assumes "compute_activations s (prepend_ones X) = Inr s1"
    and "act s1 \<noteq> []" and "0 < nrows (last (act s1))" and "0 < nrows y"
  shows "predict compute_activations s X (Some y) =
     Inr ((predictions (last (act s1)),
           Some (one_minus (np_mean (eq_indicator (predictions (last (act s1))) (predictions y))))), s1)"
  using assms(1,2) predictions_argmax(1)[OF assms(3)] predictions_argmax(1)[OF assms(4)]
  by (simp add: predict_def bind_def index_last_def)

lemma rate_same_length:
  assumes "length p = length q"
  shows "one_minus (np_mean (eq_indicator p q)) =
         (if length p = 0 then NaN else Num (mismatch_rate p q))"
  using assms eq_indicator_same_length[OF assms]
  by (simp add: np_mean_def one_minus_def mismatch_rate_def sum_indicator)

lemma rate_nan:
  "one_minus (np_mean (eq_indicator p q)) = NaN \<longleftrightarrow>
     (length p = 0 \<and> length q \<le> 1) \<or> (length p = 1 \<and> length q = 0)"
proof -
  have "one_minus (np_mean (eq_indicator p q)) = NaN \<longleftrightarrow> eq_indicator p q = []"
    by (simp add: one_minus_def np_mean_def)
  then show ?thesis by (simp only: eq_indicator_empty)
qed

lemma all_equal_replicate:
  "length p = n \<Longrightarrow> p = replicate n c \<longleftrightarrow> (\<forall>j < n. p ! j = c)"
  by (auto simp: list_eq_iff_nth_eq)

lemma rate_right_single:
  fixes p q :: "nat list"
  assumes "length q = 1" and "1 < length p"
  shows "one_minus (np_mean (eq_indicator p q)) =
           Num (mismatch_rate p (replicate (length p) (q ! 0)))"
    and "mismatch_rate p (replicate (length p) (q ! 0)) = 0 \<longleftrightarrow> (\<forall>j < length p. p ! j = q ! 0)"
proof -
  let ?q = "replicate (length p) (q ! 0)"
  have len: "length p = length ?q" by simp
  have ne: "length p \<noteq> 1" "0 < length p" "length p \<noteq> 0" using assms(2) by auto
  show "one_minus (np_mean (eq_indicator p q)) = Num (mismatch_rate p ?q)"
    unfolding eq_indicator_right_single[OF assms(1) ne(1)] rate_same_length[OF len]
    using ne(3) by simp
  have "mismatch_rate p ?q = 0 \<longleftrightarrow> p = ?q"
    using rate_bounds[OF len ne(2)] unfolding mismatch_rate_def by simp
  then show "mismatch_rate p ?q = 0 \<longleftrightarrow> (\<forall>j < length p. p ! j = q ! 0)"
    by (simp only: all_equal_replicate[OF refl])
qed

lemma rate_left_single:
  fixes p q :: "nat list"
  assumes "length p = 1" and "1 < length q"
  shows "one_minus (np_mean (eq_indicator p q)) =
           Num (mismatch_rate (replicate (length q) (p ! 0)) q)"
    and "mismatch_rate (replicate (length q) (p ! 0)) q = 0 \<longleftrightarrow> (\<forall>j < length q. q ! j = p ! 0)"
proof -
  let ?p = "replicate (length q) (p ! 0)"
  have len: "length ?p = length q" by simp
  have ne: "length q \<noteq> 1" "0 < length ?p" "length ?p \<noteq> 0" using assms(2) by auto
  show "one_minus (np_mean (eq_indicator p q)) = Num (mismatch_rate ?p q)"
    unfolding eq_indicator_left_single[OF assms(1) ne(1)] rate_same_length[OF len]
    using ne(3) by simp
  have "mismatch_rate ?p q = 0 \<longleftrightarrow> ?p = q"
    using rate_bounds[OF len ne(2)] unfolding mismatch_rate_def by simp
  also have "\<dots> \<longleftrightarrow> q = ?p" by (rule eq_commute)
  also have "\<dots> \<longleftrightarrow> (\<forall>j < length q. q ! j = p ! 0)"
    by (rule all_equal_replicate[OF refl])
  finally show "mismatch_rate ?p q = 0 \<longleftrightarrow> (\<forall>j < length q. q ! j = p ! 0)" .
qed

lemma rate_no_broadcast:
  assumes "length p \<noteq> length q" and "length p \<noteq> 1" and "length q \<noteq> 1"
  shows "one_minus (np_mean (eq_indicator p q)) = Num 1"
  unfolding eq_indicator_no_broadcast[OF assms] by (simp add: np_mean_def one_minus_def)

lemma length_predictions [simp]: "length (predictions a) = ncols a"
  by (simp add: predictions_def)

lemma demo_forward: "demo_activations demo_clf (prepend_ones demo_X) = Inr demo_s2"
  by code_simp

text \<open>
  C7, as amended. \<open>predict\<close> prepends a row of ones to \<open>X\<close>, runs the forward
  propagation on the result, and returns for every example the arg-max class of the
  final activation: the first index whose activation no other class exceeds. Given
  labels \<open>y\<close>, it also returns the misclassification rate
  \<open>1 - mean(pred == argmax(y))\<close>. The rate is \<open>nan\<close> exactly when the comparison
  has no entries, as on a batch without examples, and on every other input it lies
  in [0,1]. For labels with one column per example and a batch with at least one
  example it is the fraction of examples whose predicted index differs from the
  label index, and it is 0 exactly when every predicted index equals its label
  index. A single label column is compared with every prediction, and a single
  prediction with every label column. Labels of any other width compare as the
  scalar \<open>False\<close>, and the rate is 1.
\<close>

theorem predict_misclassification_rate:
  assumes "compute_activations s (prepend_ones X) = Inr s1"
    and "act s1 \<noteq> []" and "0 < nrows (last (act s1))" and "0 < nrows y"
  shows "nrows (prepend_ones X) = nrows X + 1 \<and> ncols (prepend_ones X) = ncols X \<and>
    (\<forall>j < ncols X. entry (prepend_ones X) 0 j = 1 \<and>
       (\<forall>i < nrows X. entry (prepend_ones X) (i + 1) j = entry X i j)) \<and>
    predict compute_activations s X None = Inr ((predictions (last (act s1)), None), s1) \<and>
    length (predictions (last (act s1))) = ncols (last (act s1)) \<and>
    (\<forall>j < ncols (last (act s1)). predictions (last (act s1)) ! j < nrows (last (act s1)) \<and>
       (\<forall>i < nrows (last (act s1)).
          entry (last (act s1)) i j \<le> entry (last (act s1)) (predictions (last (act s1)) ! j) j) \<and>
       (\<forall>i < predictions (last (act s1)) ! j.
          entry (last (act s1)) i j < entry (last (act s1)) (predictions (last (act s1)) ! j) j)) \<and>
    (\<exists>rate. predict compute_activations s X (Some y) =
               Inr ((predictions (last (act s1)), Some rate), s1) \<and>
       (\<forall>r. rate = Num r \<longrightarrow> 0 \<le> r \<and> r \<le> 1) \<and>
       (rate = NaN \<longleftrightarrow> (ncols (last (act s1)) = 0 \<and> ncols y \<le> 1) \<or>
                       (ncols (last (act s1)) = 1 \<and> ncols y = 0)) \<and>
       (ncols y = ncols (last (act s1)) \<longrightarrow>
          (ncols (last (act s1)) = 0 \<longrightarrow> rate = NaN) \<and>
          (0 < ncols (last (act s1)) \<longrightarrow>
             rate = Num (mismatch_rate (predictions (last (act s1))) (predictions y)) \<and>
             (mismatch_rate (predictions (last (act s1))) (predictions y) = 0
                \<longleftrightarrow> predictions (last (act s1)) = predictions y))) \<and>
       (ncols y = 1 \<and> 1 < ncols (last (act s1)) \<longrightarrow>
          rate = Num (mismatch_rate (predictions (last (act s1)))
                        (replicate (ncols (last (act s1))) (predictions y ! 0))) \<and>
          (mismatch_rate (predictions (last (act s1)))
                        (replicate (ncols (last (act s1))) (predictions y ! 0)) = 0
             \<longleftrightarrow> (\<forall>j < ncols (last (act s1)). predictions (last (act s1)) ! j = predictions y ! 0))) \<and>
       (ncols (last (act s1)) = 1 \<and> 1 < ncols y \<longrightarrow>
          rate = Num (mismatch_rate (replicate (ncols y) (predictions (last (act s1)) ! 0))
                        (predictions y)) \<and>
          (mismatch_rate (replicate (ncols y) (predictions (last (act s1)) ! 0)) (predictions y) = 0
             \<longleftrightarrow> (\<forall>j < ncols y. predictions y ! j = predictions (last (act s1)) ! 0))) \<and>
       (ncols y \<noteq> ncols (last (act s1)) \<and> ncols y \<noteq> 1 \<and> ncols (last (act s1)) \<noteq> 1 \<longrightarrow>
          rate = Num 1))"
proof -
  let ?a = "last (act s1)"
  let ?p = "predictions ?a" and ?q = "predictions y"
  let ?rate = "one_minus (np_mean (eq_indicator ?p ?q))"
  have o1: "nrows (prepend_ones X) = nrows X + 1" by (rule prepend_ones_entries(1))
  have o2: "ncols (prepend_ones X) = ncols X" by (rule prepend_ones_entries(2))
  have o3: "\<forall>j < ncols X. entry (prepend_ones X) 0 j = 1 \<and>
       (\<forall>i < nrows X. entry (prepend_ones X) (i + 1) j = entry X i j)"
    by (simp add: prepend_ones_entries(3,4))
  have un: "predict compute_activations s X None = Inr ((?p, None), s1)"
    by (rule predict_unlabelled[of compute_activations s X s1, OF assms(1,2,3)])
  have lp: "length ?p = ncols ?a" and lq: "length ?q = ncols y"
    by (simp_all add: predictions_def)
  note am = predictions_argmax(2)[OF assms(3)]
  have lab: "predict compute_activations s X (Some y) = Inr ((?p, Some ?rate), s1)"
    by (rule predict_labelled[of compute_activations s X s1 y, OF assms])
  have bound: "\<forall>r. ?rate = Num r \<longrightarrow> 0 \<le> r \<and> r \<le> 1"
    using rate_in_unit_interval[of ?p ?q] by blast
  have nan: "?rate = NaN \<longleftrightarrow> (ncols ?a = 0 \<and> ncols y \<le> 1) \<or> (ncols ?a = 1 \<and> ncols y = 0)"
    using rate_nan[of ?p ?q] by (simp only: lp lq)
  have same: "(ncols ?a = 0 \<longrightarrow> ?rate = NaN) \<and>
          (0 < ncols ?a \<longrightarrow> ?rate = Num (mismatch_rate ?p ?q) \<and>
             (mismatch_rate ?p ?q = 0 \<longleftrightarrow> ?p = ?q))" if c: "ncols y = ncols ?a"
  proof -
    have len: "length ?p = length ?q" using c by (simp add: predictions_def)
    note r = rate_same_length[OF len]
    have "mismatch_rate ?p ?q = 0 \<longleftrightarrow> ?p = ?q" if "0 < ncols ?a"
      using rate_bounds[OF len] that lp unfolding mismatch_rate_def by simp
    with r lp show ?thesis by simp
  qed
  have right: "?rate = Num (mismatch_rate ?p (replicate (ncols ?a) (?q ! 0))) \<and>
          (mismatch_rate ?p (replicate (ncols ?a) (?q ! 0)) = 0
             \<longleftrightarrow> (\<forall>j < ncols ?a. ?p ! j = ?q ! 0))" if c: "ncols y = 1 \<and> 1 < ncols ?a"
  proof -
    have l: "length ?q = 1" "1 < length ?p" using c by (simp_all only: lp lq)
    from rate_right_single[OF l] show ?thesis by (simp only: lp)
  qed
  have left: "?rate = Num (mismatch_rate (replicate (ncols y) (?p ! 0)) ?q) \<and>
          (mismatch_rate (replicate (ncols y) (?p ! 0)) ?q = 0
             \<longleftrightarrow> (\<forall>j < ncols y. ?q ! j = ?p ! 0))" if c: "ncols ?a = 1 \<and> 1 < ncols y"
  proof -
    have l: "length ?p = 1" "1 < length ?q" using c by (simp_all only: lp lq)
    from rate_left_single[OF l] show ?thesis by (simp only: lq)
  qed
  have other: "?rate = Num 1" if c: "ncols y \<noteq> ncols ?a \<and> ncols y \<noteq> 1 \<and> ncols ?a \<noteq> 1"
  proof -
    have l: "length ?p \<noteq> length ?q" "length ?p \<noteq> 1" "length ?q \<noteq> 1"
      using c by (auto simp only: lp lq)
    show ?thesis by (rule rate_no_broadcast[OF l])
  qed
  have ex: "\<exists>rate. predict compute_activations s X (Some y) = Inr ((?p, Some rate), s1) \<and>
       (\<forall>r. rate = Num r \<longrightarrow> 0 \<le> r \<and> r \<le> 1) \<and>
       (rate = NaN \<longleftrightarrow> (ncols ?a = 0 \<and> ncols y \<le> 1) \<or> (ncols ?a = 1 \<and> ncols y = 0)) \<and>
       (ncols y = ncols ?a \<longrightarrow>
          (ncols ?a = 0 \<longrightarrow> rate = NaN) \<and>
          (0 < ncols ?a \<longrightarrow> rate = Num (mismatch_rate ?p ?q) \<and>
             (mismatch_rate ?p ?q = 0 \<longleftrightarrow> ?p = ?q))) \<and>
       (ncols y = 1 \<and> 1 < ncols ?a \<longrightarrow>
          rate = Num (mismatch_rate ?p (replicate (ncols ?a) (?q ! 0))) \<and>
          (mismatch_rate ?p (replicate (ncols ?a) (?q ! 0)) = 0
             \<longleftrightarrow> (\<forall>j < ncols ?a. ?p ! j = ?q ! 0))) \<and>
       (ncols ?a = 1 \<and> 1 < ncols y \<longrightarrow>
          rate = Num (mismatch_rate (replicate (ncols y) (?p ! 0)) ?q) \<and>
          (mismatch_rate (replicate (ncols y) (?p ! 0)) ?q = 0
             \<longleftrightarrow> (\<forall>j < ncols y. ?q ! j = ?p ! 0))) \<and>
       (ncols y \<noteq> ncols ?a \<and> ncols y \<noteq> 1 \<and> ncols ?a \<noteq> 1 \<longrightarrow> rate = Num 1)"
    apply (rule exI[of _ ?rate])
    apply (rule conjI, rule lab)
    apply (rule conjI, rule bound)
    apply (rule conjI, rule nan)
    apply (rule conjI, rule impI, erule same)
    apply (rule conjI, rule impI, erule right)
    apply (rule conjI, rule impI, erule left)
    apply (rule impI, erule other)
    done
  show ?thesis
    apply (intro conjI)
          apply (rule o1)
         apply (rule o2)
        apply (rule o3)
       apply (rule un)
      apply (rule lp)
     apply (rule am)
    apply (rule ex)
    done
qed

theorem predict_misclassification_rate_witness:
  "demo_activations demo_clf (prepend_ones demo_X) = Inr demo_s2 \<and>
   act demo_s2 \<noteq> [] \<and> 0 < nrows (last (act demo_s2)) \<and> 0 < nrows demo_y \<and>
   prepend_ones demo_X = Mat 3 3 [[1, 1, 1], [1, 2, 3], [4, 5, 6]] \<and>
   predict demo_activations demo_clf demo_X None = Inr (([0, 1, 1], None), demo_s2) \<and>
   predict demo_activations demo_clf demo_X (Some demo_y)
     = Inr (([0, 1, 1], Some (Num (1 / 3))), demo_s2) \<and>
   predictions demo_y = [0, 1, 0] \<and>
   mismatch_rate [0, 1, 1] [0, 1, 0] = 1 / 3 \<and> (0::real) \<le> 1 / 3 \<and> (1 / 3 :: real) \<le> 1 \<and>
   (mismatch_rate [0, 1, 1] [0, 1, 0] = 0 \<longleftrightarrow> [0, 1, 1] = [0, 1, 0 :: nat]) \<and>
   predict demo_activations demo_clf demo_X (Some (Mat 2 3 [[1, 0, 0], [0, 1, 1]]))
     = Inr (([0, 1, 1], Some (Num 0)), demo_s2) \<and>
   predict demo_activations demo_clf demo_X (Some (Mat 2 1 [[0], [1]]))
     = Inr (([0, 1, 1], Some (Num (1 / 3))), demo_s2) \<and>
   predict demo_activations demo_clf demo_X (Some (Mat 2 2 [[1, 0], [0, 1]]))
     = Inr (([0, 1, 1], Some (Num 1)), demo_s2)"
proof -
  have h: "act demo_s2 \<noteq> []" "0 < nrows (last (act demo_s2))" "0 < nrows demo_y"
    by (simp_all add: demo_s2_def demo_y_def)
  have c: "ncols demo_y = ncols (last (act demo_s2))" "0 < ncols (last (act demo_s2))"
    by (simp_all add: demo_s2_def demo_y_def)
  have ones: "prepend_ones demo_X = Mat 3 3 [[1, 1, 1], [1, 2, 3], [4, 5, 6]]" by code_simp
  have p: "predictions (last (act demo_s2)) = [0, 1, 1]" by code_simp
  have q: "predictions demo_y = [0, 1, 0]" by code_simp
  have e: "predict demo_activations demo_clf demo_X (Some demo_y)
     = Inr (([0, 1, 1], Some (Num (1 / 3))), demo_s2)" by code_simp
  have e0: "predict demo_activations demo_clf demo_X (Some (Mat 2 3 [[1, 0, 0], [0, 1, 1]]))
     = Inr (([0, 1, 1], Some (Num 0)), demo_s2)" by code_simp
  have e1: "predict demo_activations demo_clf demo_X (Some (Mat 2 1 [[0], [1]]))
     = Inr (([0, 1, 1], Some (Num (1 / 3))), demo_s2)" by code_simp
  have e2: "predict demo_activations demo_clf demo_X (Some (Mat 2 2 [[1, 0], [0, 1]]))
     = Inr (([0, 1, 1], Some (Num 1)), demo_s2)" by code_simp
  note inst = predict_misclassification_rate[of demo_activations demo_clf demo_X demo_s2 demo_y,
      OF demo_forward h]
  note un0 = inst[THEN conjunct2, THEN conjunct2, THEN conjunct2, THEN conjunct1]
  note ex = inst[THEN conjunct2, THEN conjunct2, THEN conjunct2, THEN conjunct2, THEN conjunct2,
      THEN conjunct2]
  from un0 have un: "predict demo_activations demo_clf demo_X None = Inr (([0, 1, 1], None), demo_s2)"
    by (simp only: p)
  from ex obtain rate where r1: "predict demo_activations demo_clf demo_X (Some demo_y)
           = Inr ((predictions (last (act demo_s2)), Some rate), demo_s2)"
    and r2: "\<forall>r. rate = Num r \<longrightarrow> 0 \<le> r \<and> r \<le> 1"
    and r3: "ncols demo_y = ncols (last (act demo_s2)) \<longrightarrow>
          (ncols (last (act demo_s2)) = 0 \<longrightarrow> rate = NaN) \<and>
          (0 < ncols (last (act demo_s2)) \<longrightarrow>
             rate = Num (mismatch_rate (predictions (last (act demo_s2))) (predictions demo_y)) \<and>
             (mismatch_rate (predictions (last (act demo_s2))) (predictions demo_y) = 0
                \<longleftrightarrow> predictions (last (act demo_s2)) = predictions demo_y))"
    by (elim exE conjE)
  from r1 e have rate: "rate = Num (1 / 3)" by simp
  from r2[rule_format, OF rate] have b: "(0::real) \<le> 1 / 3" "(1 / 3 :: real) \<le> 1"
    by (rule conjunct1, rule conjunct2)
  have m: "mismatch_rate [0, 1, 1] [0, 1, 0] = 1 / 3" by code_simp
  from r3[rule_format, OF c(1), THEN conjunct2, rule_format, OF c(2), THEN conjunct2]
  have "mismatch_rate (predictions (last (act demo_s2))) (predictions demo_y) = 0
                \<longleftrightarrow> predictions (last (act demo_s2)) = predictions demo_y" .
  then have z: "mismatch_rate [0, 1, 1] [0, 1, 0] = 0 \<longleftrightarrow> [0, 1, 1] = [0, 1, 0 :: nat]"
    by (simp only: p q)
  show ?thesis
    by (intro conjI) (fact demo_forward h ones un e q m b z e0 e1 e2)+
qed

text \<open>
  C7, as stated, fails on a batch without examples: the mean of no comparisons is
  \<open>nan\<close>, and so is the rate that \<open>predict\<close> returns; it is neither in [0,1] nor
  0, although no prediction differs from its label.
\<close>

theorem predict_empty_batch_counterexample:
  "predict demo_activations demo_clf (Mat 2 0 [[], []]) (Some (Mat 2 0 [[], []])) =
     Inr (([], Some NaN), demo_clf\<lparr>act := [Mat 2 0 [[], []]]\<rparr>)"
  by code_simp


section \<open>Properties of flattening and of the gradient check\<close>

lemma length_concat_rows:
  "\<forall>row \<in> set xs. length row = c \<Longrightarrow> length (concat xs) = length xs * c"
  by (induction xs) simp_all

lemma length_flatten: "wf_mat M \<Longrightarrow> length (flatten M) = nrows M * ncols M"
  using length_concat_rows[of "rows M" "ncols M"] by (simp add: flatten_def wf_mat_def)

lemma drop_concat_rows:
  "\<forall>row \<in> set xs. length row = c \<Longrightarrow> drop (i * c) (concat xs) = concat (drop i xs)"
proof (induction xs arbitrary: i)
  case Nil
  then show ?case by simp
next
  case (Cons x xs)
  show ?case
  proof (cases i)
    case 0
    then show ?thesis by simp
  next
    case (Suc k)
    with Cons show ?thesis by simp
  qed
qed

lemma chunks_concat:
  assumes "\<forall>row \<in> set xs. length row = c"
  shows "map (\<lambda>i. take c (drop (i * c) (concat xs))) [0..<length xs] = xs"
proof (rule nth_equalityI)
  show "length (map (\<lambda>i. take c (drop (i * c) (concat xs))) [0..<length xs]) = length xs"
    by simp
next
  fix i
  assume "i < length (map (\<lambda>i. take c (drop (i * c) (concat xs))) [0..<length xs])"
  then have i: "i < length xs" by simp
  have d: "drop i xs = xs ! i # drop (Suc i) xs"
    using i by (simp add: Cons_nth_drop_Suc)
  have l: "length (xs ! i) = c" using assms i by simp
  have "take c (drop (i * c) (concat xs)) = xs ! i"
    unfolding drop_concat_rows[OF assms] d using l by simp
  then show "map (\<lambda>i. take c (drop (i * c) (concat xs))) [0..<length xs] ! i = xs ! i"
    using i by simp
qed

lemma reshape_flatten:
  assumes "wf_mat M"
  shows "reshape (nrows M) (ncols M) (flatten M) = M"
proof (cases M)
  case (Mat r c xs)
  with assms have "length xs = r" and "\<forall>row \<in> set xs. length row = c"
    by (simp_all add: wf_mat_def)
  then show ?thesis
    using chunks_concat[of xs c] Mat by (simp add: reshape_def flatten_def)
qed

lemma unroll_Cons: "unroll (w # ws) = flatten w @ unroll ws"
  by (simp add: unroll_def)

lemma length_unroll: "has_topology ns ws \<Longrightarrow> length (unroll ws) = total_size ns"
  by (induction ns ws rule: has_topology.induct) (simp_all add: unroll_Cons length_flatten, simp add: unroll_def)

lemma reroll_mats_unroll: "has_topology ns ws \<Longrightarrow> reroll_mats (unroll ws) ns = ws"
proof (induction ns ws rule: has_topology.induct)
  case (1 n1 n2 ns w ws)
  then have w: "wf_mat w" "nrows w = n1 + 1" "ncols w = n2" and rest: "has_topology (n2 # ns) ws"
    by simp_all
  have l: "length (flatten w) = (n1 + 1) * n2" using length_flatten[OF w(1)] w(2,3) by simp
  have "reshape (n1 + 1) n2 (flatten w) = w" using reshape_flatten[OF w(1)] w(2,3) by simp
  with 1 rest l show ?case by (simp add: unroll_Cons)
qed simp_all

lemma reroll_unroll: "has_topology ns ws \<Longrightarrow> reroll (unroll ws) ns = Inr ws"
  by (simp add: reroll_def length_unroll reroll_mats_unroll)

lemma n_params_topology: "has_topology ns ws \<Longrightarrow> n_params ws = total_size ns"
  by (induction ns ws rule: has_topology.induct) (simp_all add: n_params_def)

lemma has_topology_cos_weights:
  "has_topology [5, 50, 5] (cos_weights [5, 50, 5])"
  "has_topology [5, 50, 3] (cos_weights [5, 50, 3])"
  "has_topology [5, 50, 25, 3] (cos_weights [5, 50, 25, 3])"
  by (simp_all add: cos_weights_def)

lemma ngrad_loop_central:
  assumes "\<forall>x \<in> set idx. x < length (unroll wts)" and "total_size n_nodes \<le> length (unroll wts)"
  shows "ngrad_loop eps n_nodes loss wts idx =
         Inr (map (central_difference loss n_nodes (unroll wts) eps) idx)"
  using assms
  by (induction idx) (simp_all add: perturb_def reroll_def bind_def central_difference_def)

lemma fancy_index_map:
  "\<forall>x \<in> set idx. x < length v \<Longrightarrow> fancy_index v idx = Inr (map (\<lambda>x. v ! x) idx)"
  by (simp add: fancy_index_def list_all_iff)

lemma gradient_check_mean:
  assumes topo: "has_topology n_nodes wts" and g: "has_topology n_nodes grad"
    and perm: "\<forall>x \<in> set perm. x < total_size n_nodes"
    and ne: "sample_idx (total_size n_nodes) perm \<noteq> []"
  shows "gradient_check err_tol eps n_nodes loss grad wts perm =
    Inr (sum_list (map (\<lambda>x. \<bar>central_difference loss n_nodes (unroll wts) eps x - unroll grad ! x\<bar>)
            (sample_idx (total_size n_nodes) perm))
         / real (length (sample_idx (total_size n_nodes) perm)) < err_tol)"
proof -
  let ?idx = "sample_idx (total_size n_nodes) perm"
  have n: "n_params wts = total_size n_nodes" by (rule n_params_topology[OF topo])
  have lw: "length (unroll wts) = total_size n_nodes" by (rule length_unroll[OF topo])
  have lg: "length (unroll grad) = total_size n_nodes" by (rule length_unroll[OF g])
  have sub: "\<forall>x \<in> set ?idx. x < total_size n_nodes"
    using perm by (auto simp: sample_idx_def dest: in_set_takeD)
  have a: "ngrad_loop eps n_nodes loss wts ?idx =
         Inr (map (central_difference loss n_nodes (unroll wts) eps) ?idx)"
    by (rule ngrad_loop_central) (simp_all add: lw sub)
  have b: "fancy_index (unroll grad) ?idx = Inr (map (\<lambda>x. unroll grad ! x) ?idx)"
    by (rule fancy_index_map) (simp add: lg sub)
  have c: "map2 (\<lambda>a b. \<bar>a - b\<bar>) (map (central_difference loss n_nodes (unroll wts) eps) ?idx)
              (map (\<lambda>x. unroll grad ! x) ?idx)
         = map (\<lambda>x. \<bar>central_difference loss n_nodes (unroll wts) eps x - unroll grad ! x\<bar>) ?idx"
    by (simp add: map2_map_map)
  show ?thesis
    unfolding gradient_check_def Let_def n a b bind_def
    using ne c by (simp add: np_mean_def less_float_def)
qed

lemma sample_of_permutation:
  assumes "distinct perm" and "set perm = {0..<n}"
  shows "\<forall>x \<in> set perm. x < n" and "length (sample_idx n perm) = n div 20"
proof -
  show "\<forall>x \<in> set perm. x < n" using assms(2) by simp
  have "length perm = n" using distinct_card[OF assms(1)] assms(2) by simp
  then show "length (sample_idx n perm) = n div 20" by (simp add: sample_idx_def)
qed

text \<open>
  C8. For every weight collection whose matrices have the shapes that the layer
  topology determines, \<open>unroll\<close> followed by \<open>reroll\<close> with that topology gives
  back the collection: the same matrices, shape and values.
\<close>

theorem unroll_reroll_roundtrip:
  assumes "has_topology n_nodes ws"
  shows "reroll (unroll ws) n_nodes = Inr ws"
  using assms by (rule reroll_unroll)

theorem unroll_reroll_roundtrip_witness:
  "has_topology [1, 2, 1] [Mat 2 2 [[1, 2], [3, 4]], Mat 3 1 [[5], [6], [7]]] \<and>
   unroll [Mat 2 2 [[1, 2], [3, 4]], Mat 3 1 [[5], [6], [7]]] = [1, 2, 3, 4, 5, 6, 7] \<and>
   reroll (unroll [Mat 2 2 [[1, 2], [3, 4]], Mat 3 1 [[5], [6], [7]]]) [1, 2, 1]
     = Inr [Mat 2 2 [[1, 2], [3, 4]], Mat 3 1 [[5], [6], [7]]]"
proof -
  have h: "has_topology [1, 2, 1] [Mat 2 2 [[1, 2], [3, 4]], Mat 3 1 [[5], [6], [7]]]"
    by (simp add: wf_mat_def)
  have u: "unroll [Mat 2 2 [[1, 2], [3, 4]], Mat 3 1 [[5], [6], [7]]] = [1, 2, 3, 4, 5, 6, 7]"
    by (simp add: unroll_def flatten_def)
  from unroll_reroll_roundtrip[OF h] h u show ?thesis by blast
qed

text \<open>
  C1, evaluated on the code. The autoencoder test has 555 parameters; its sample
  is the first \<open>555 div 20 = 27\<close> entries of the permutation, one twentieth of the
  parameters and not one fifth of them, which would be 111.
\<close>

theorem gradient_check_sample_is_a_twentieth:
  "n_params (cos_weights [5, 50, 5]) = 555 \<and>
   length (sample_idx (n_params (cos_weights [5, 50, 5])) [0..<555]) = 27 \<and>
   (555::nat) div 5 = 111"
proof -
  have n: "n_params (cos_weights [5, 50, 5]) = 555"
    using n_params_topology[OF has_topology_cos_weights(1)] by simp
  show ?thesis unfolding n by (simp add: sample_idx_def)
qed

text \<open>
  C3. Each of the three tests passes exactly when the mean, over the sampled
  indices, of the absolute difference between the central-difference estimate and
  the entry of the flattened \<open>bprop\<close> gradient at the same index is below the
  tolerance: \<open>1e-9\<close> with \<open>\<epsilon> = 1e-4\<close> for the autoencoder, \<open>1e-10\<close> with
  \<open>\<epsilon> = 1e-5\<close> for the softmax classifier with one hidden layer and with two.
  The permutation is one of the parameter indices and the gradient has the shapes
  of the weights.
\<close>

theorem gradient_check_passes_iff_mean_below_tolerance:
  assumes "distinct p1" and "set p1 = {0..<555}" and "has_topology [5, 50, 5] g1"
    and "distinct p2" and "set p2 = {0..<453}" and "has_topology [5, 50, 3] g2"
    and "distinct p3" and "set p3 = {0..<1653}" and "has_topology [5, 50, 25, 3] g3"
  shows "test_Autoencoder l1 g1 p1 =
      Inr ((\<Sum>x\<leftarrow>take 27 p1. \<bar>central_difference l1 [5, 50, 5] (unroll (cos_weights [5, 50, 5]))
                (1 / 10 ^ 4) x - unroll g1 ! x\<bar>) / 27 < 1 / 10 ^ 9) \<and>
    test_SoftmaxClassifier_single_layer l2 g2 p2 =
      Inr ((\<Sum>x\<leftarrow>take 22 p2. \<bar>central_difference l2 [5, 50, 3] (unroll (cos_weights [5, 50, 3]))
                (1 / 10 ^ 5) x - unroll g2 ! x\<bar>) / 22 < 1 / 10 ^ 10) \<and>
    test_SoftmaxClassifier_multi_layer l3 g3 p3 =
      Inr ((\<Sum>x\<leftarrow>take 82 p3. \<bar>central_difference l3 [5, 50, 25, 3] (unroll (cos_weights [5, 50, 25, 3]))
                (1 / 10 ^ 5) x - unroll g3 ! x\<bar>) / 82 < 1 / 10 ^ 10)"
proof -
  have s1: "sample_idx (total_size [5, 50, 5]) p1 = take 27 p1" "length (take 27 p1) = 27"
    using sample_of_permutation(2)[OF assms(1,2)] by (simp_all add: sample_idx_def)
  have s2: "sample_idx (total_size [5, 50, 3]) p2 = take 22 p2" "length (take 22 p2) = 22"
    using sample_of_permutation(2)[OF assms(4,5)] by (simp_all add: sample_idx_def)
  have s3: "sample_idx (total_size [5, 50, 25, 3]) p3 = take 82 p3" "length (take 82 p3) = 82"
    using sample_of_permutation(2)[OF assms(7,8)] by (simp_all add: sample_idx_def)
  have b1: "\<forall>x \<in> set p1. x < total_size [5, 50, 5]" using assms(2) by simp
  have b2: "\<forall>x \<in> set p2. x < total_size [5, 50, 3]" using assms(5) by simp
  have b3: "\<forall>x \<in> set p3. x < total_size [5, 50, 25, 3]" using assms(8) by simp
  have n1: "sample_idx (total_size [5, 50, 5]) p1 \<noteq> []" using s1 by auto
  have n2: "sample_idx (total_size [5, 50, 3]) p2 \<noteq> []" using s2 by auto
  have n3: "sample_idx (total_size [5, 50, 25, 3]) p3 \<noteq> []" using s3 by auto
  have t1: "test_Autoencoder l1 g1 p1 =
      Inr ((\<Sum>x\<leftarrow>take 27 p1. \<bar>central_difference l1 [5, 50, 5] (unroll (cos_weights [5, 50, 5]))
                (1 / 10 ^ 4) x - unroll g1 ! x\<bar>) / 27 < 1 / 10 ^ 9)"
    unfolding test_Autoencoder_def
      gradient_check_mean[OF has_topology_cos_weights(1) assms(3) b1 n1] s1 by simp
  have t2: "test_SoftmaxClassifier_single_layer l2 g2 p2 =
      Inr ((\<Sum>x\<leftarrow>take 22 p2. \<bar>central_difference l2 [5, 50, 3] (unroll (cos_weights [5, 50, 3]))
                (1 / 10 ^ 5) x - unroll g2 ! x\<bar>) / 22 < 1 / 10 ^ 10)"
    unfolding test_SoftmaxClassifier_single_layer_def append_Cons append_Nil
      gradient_check_mean[OF has_topology_cos_weights(2) assms(6) b2 n2] s2 by simp
  have t3: "test_SoftmaxClassifier_multi_layer l3 g3 p3 =
      Inr ((\<Sum>x\<leftarrow>take 82 p3. \<bar>central_difference l3 [5, 50, 25, 3] (unroll (cos_weights [5, 50, 25, 3]))
                (1 / 10 ^ 5) x - unroll g3 ! x\<bar>) / 82 < 1 / 10 ^ 10)"
    unfolding test_SoftmaxClassifier_multi_layer_def append_Cons append_Nil
      gradient_check_mean[OF has_topology_cos_weights(3) assms(9) b3 n3] s3 by simp
  from t1 t2 t3 show ?thesis by blast
qed

theorem gradient_check_passes_iff_mean_below_tolerance_witness:
  "distinct [0..<555] \<and> set [0..<555] = {0..<555} \<and> has_topology [5, 50, 5] (cos_weights [5, 50, 5]) \<and>
   distinct [0..<453] \<and> set [0..<453] = {0..<453} \<and> has_topology [5, 50, 3] (cos_weights [5, 50, 3]) \<and>
   distinct [0..<1653] \<and> set [0..<1653] = {0..<1653} \<and>
   has_topology [5, 50, 25, 3] (cos_weights [5, 50, 25, 3]) \<and>
   test_Autoencoder (\<lambda>ws. 0) (cos_weights [5, 50, 5]) [0..<555] =
      Inr ((\<Sum>x\<leftarrow>take 27 [0..<555]. \<bar>central_difference (\<lambda>ws. 0) [5, 50, 5] (unroll (cos_weights [5, 50, 5]))
                (1 / 10 ^ 4) x - unroll (cos_weights [5, 50, 5]) ! x\<bar>) / 27 < 1 / 10 ^ 9) \<and>
   test_SoftmaxClassifier_single_layer (\<lambda>ws. 0) (cos_weights [5, 50, 3]) [0..<453] =
      Inr ((\<Sum>x\<leftarrow>take 22 [0..<453]. \<bar>central_difference (\<lambda>ws. 0) [5, 50, 3] (unroll (cos_weights [5, 50, 3]))
                (1 / 10 ^ 5) x - unroll (cos_weights [5, 50, 3]) ! x\<bar>) / 22 < 1 / 10 ^ 10) \<and>
   test_SoftmaxClassifier_multi_layer (\<lambda>ws. 0) (cos_weights [5, 50, 25, 3]) [0..<1653] =
      Inr ((\<Sum>x\<leftarrow>take 82 [0..<1653]. \<bar>central_difference (\<lambda>ws. 0) [5, 50, 25, 3]
                (unroll (cos_weights [5, 50, 25, 3])) (1 / 10 ^ 5) x
                - unroll (cos_weights [5, 50, 25, 3]) ! x\<bar>) / 82 < 1 / 10 ^ 10)"
proof -
  have d: "distinct [0..<555]" "distinct [0..<453]" "distinct [0..<1653]" by simp_all
  have s: "set [0..<555] = {0..<555}" "set [0..<453] = {0..<453}" "set [0..<1653] = {0..<1653}"
    by simp_all
  note t = has_topology_cos_weights
  from gradient_check_passes_iff_mean_below_tolerance[OF d(1) s(1) t(1) d(2) s(2) t(2) d(3) s(3) t(3),
      of "\<lambda>ws. 0" "\<lambda>ws. 0" "\<lambda>ws. 0"] d s t
  show ?thesis by blast
qed


section \<open>Properties of back-propagation\<close>

lemma shape_ops [simp]:
  "nrows (smul c A) = nrows A" "ncols (smul c A) = ncols A"
  "nrows (rsub c A) = nrows A" "ncols (rsub c A) = ncols A"
  "nrows (transpose_mat A) = ncols A" "ncols (transpose_mat A) = nrows A"
  "nrows (drop_row A) = nrows A - 1" "ncols (drop_row A) = ncols A"
  "nrows (mdot A B) = nrows A" "ncols (mdot A B) = ncols B"
  "nrows (add_below A B) = nrows A" "ncols (add_below A B) = ncols A"
  "nrows (ew_total f A B) = bmax (nrows A) (nrows B)"
  "ncols (ew_total f A B) = bmax (ncols A) (ncols B)"
  by (simp_all add: smul_def rsub_def transpose_mat_def drop_row_def mdot_def add_below_def
      ew_total_def)

lemma bmax_same [simp]: "bmax n n = n"
  by (simp add: bmax_def)

lemma ew_same_shape:
  "nrows A = nrows B \<Longrightarrow> ncols A = ncols B \<Longrightarrow> ew f A B = Inr (ew_total f A B)"
  by (simp add: ew_def bdim_def)

lemma np_dot_ok: "ncols A = nrows B \<Longrightarrow> np_dot A B = Inr (mdot A B)"
  by (simp add: np_dot_def)

lemma net_shapesD:
  assumes "net_shapes ns m X y wts acts"
  shows "1 \<le> length wts" "length ns = length wts + 1" "length acts = length wts" "0 < m"
    "nrows X = ns ! 0 + 1" "ncols X = m" "nrows y = ns ! length wts" "ncols y = m"
    "\<And>l. l < length wts \<Longrightarrow> nrows (wts ! l) = ns ! l + 1"
    "\<And>l. l < length wts \<Longrightarrow> ncols (wts ! l) = ns ! (l + 1)"
    "\<And>l. l < length wts - 1 \<Longrightarrow> nrows (acts ! l) = ns ! (l + 1) + 1"
    "\<And>l. l < length wts - 1 \<Longrightarrow> ncols (acts ! l) = m"
    "nrows (acts ! (length wts - 1)) = ns ! length wts"
    "ncols (acts ! (length wts - 1)) = m"
  using assms by (simp_all add: net_shapes_def shape_def list_all_iff)

lemma loop_error_last:
  "length acts \<le> l + 1 \<Longrightarrow> loop_error wts acts y l = minus_mat (last acts) y"
  by (subst loop_error.simps) simp

lemma loop_error_step:
  "l + 1 < length acts \<Longrightarrow> loop_error wts acts y l =
     drop_row (times_mat (times_mat (mdot (wts ! (l + 1)) (loop_error wts acts y (l + 1))) (acts ! l))
                 (rsub 1 (acts ! l)))"
  by (subst loop_error.simps) simp

lemma loop_error_shape:
  assumes "net_shapes ns m X y wts acts" and "l < length wts"
  shows "nrows (loop_error wts acts y l) = ns ! (l + 1) \<and> ncols (loop_error wts acts y l) = m"
  using assms
proof (induction wts acts y l rule: loop_error.induct)
  case (1 wts acts y l)
  note sh = net_shapesD[OF "1.prems"(1)]
  show ?case
  proof (cases "length acts \<le> l + 1")
    case True
    with sh(3) "1.prems"(2) have l: "l = length wts - 1" by simp
    have "acts \<noteq> []" using sh(1,3) by auto
    then have "last acts = acts ! (length wts - 1)"
      using sh(3) by (simp add: last_conv_nth)
    moreover have "Suc (length wts - Suc 0) = length wts" using sh(1) by simp
    ultimately show ?thesis
      using True l sh(7,8,13,14) by (simp add: loop_error_last minus_mat_def)
  next
    case False
    then have lt: "l + 1 < length wts" "l < length wts - 1" using sh(3) by simp_all
    from "1.IH"[OF False "1.prems"(1) lt(1)]
    have ih: "nrows (loop_error wts acts y (l + 1)) = ns ! (l + 1 + 1)"
      "ncols (loop_error wts acts y (l + 1)) = m" by simp_all
    have "l + 1 < length acts" using False by simp
    then show ?thesis
      using ih sh(9)[OF lt(1)] sh(11,12)[OF lt(2)]
      by (simp add: loop_error_step times_mat_def)
  qed
qed

lemma reciprocal_pos: "0 < m \<Longrightarrow> reciprocal m = Inr (1 / real m)"
  by (simp add: reciprocal_def)

lemma pending_length [simp]: "length (pending X wts acts y n) = length wts"
  by (simp add: pending_def)

lemma pending_store:
  assumes "Suc n \<le> length wts - 1"
  shows "(pending X wts acts y (Suc n))[length wts - 1 - Suc n := Some (loop_gradient X wts acts y (Suc n))]
         = pending X wts acts y n"
proof (rule nth_equalityI)
  show "length ((pending X wts acts y (Suc n))[length wts - 1 - Suc n :=
          Some (loop_gradient X wts acts y (Suc n))]) = length (pending X wts acts y n)"
    by simp
next
  fix k
  assume "k < length ((pending X wts acts y (Suc n))[length wts - 1 - Suc n :=
          Some (loop_gradient X wts acts y (Suc n))])"
  then have k: "k < length wts" by simp
  show "(pending X wts acts y (Suc n))[length wts - 1 - Suc n :=
          Some (loop_gradient X wts acts y (Suc n))] ! k = pending X wts acts y n ! k"
  proof (cases "k = length wts - 1 - Suc n")
    case True
    then have "length wts - 1 - k = Suc n" "k < length wts - 1 - n" using assms by simp_all
    with True k show ?thesis by (simp add: pending_def)
  next
    case False
    then have "k < length wts - 1 - Suc n \<longleftrightarrow> k < length wts - 1 - n" using assms by auto
    with False k show ?thesis by (simp add: pending_def)
  qed
qed

lemma bprop_loop_step:
  assumes sh: "net_shapes ns m X y wts acts" and n: "Suc n \<le> length wts - 1"
  shows "bprop_loop (rev wts) m (length wts - 1 - Suc n) (acts ! n # as)
           (pending X wts acts y (Suc n)) (loop_error wts acts y (Suc n))
         = bprop_loop (rev wts) m (length wts - 1 - n) as
           (pending X wts acts y n) (loop_error wts acts y n)"
proof -
  note s = net_shapesD[OF sh]
  let ?L = "length wts" and ?i = "length wts - 1 - Suc n"
  let ?a = "acts ! n" and ?dz = "loop_error wts acts y (Suc n)" and ?w = "wts ! Suc n"
  have lt: "Suc n < ?L" "n < ?L - 1" "?i < ?L" using n by simp_all
  have dsh: "nrows ?dz = ns ! (Suc n + 1)" "ncols ?dz = m"
    using loop_error_shape[OF sh lt(1)] by simp_all
  have ash: "nrows ?a = ns ! (n + 1) + 1" "ncols ?a = m"
    using s(11,12)[OF lt(2)] by simp_all
  have wsh: "nrows ?w = ns ! Suc n + 1" "ncols ?w = ns ! (Suc n + 1)"
    using s(9,10)[OF lt(1)] by simp_all
  have c: "reciprocal m = Inr (1 / real m)" by (rule reciprocal_pos[OF s(4)])
  have d: "np_dot ?a (transpose_mat ?dz) = Inr (mdot ?a (transpose_mat ?dz))"
    by (rule np_dot_ok) (simp add: ash dsh)
  have g: "smul (1 / real m) (mdot ?a (transpose_mat ?dz)) = loop_gradient X wts acts y (Suc n)"
    by (simp add: loop_gradient_def layer_input_def s(6))
  have st: "store (pending X wts acts y (Suc n)) ?i (Some (loop_gradient X wts acts y (Suc n)))
            = Inr (pending X wts acts y n)"
    using lt(3) pending_store[OF n] by (simp add: store_def)
  have "rev wts ! ?i = wts ! (?L - Suc ?i)" by (rule rev_nth[OF lt(3)])
  moreover have "?L - Suc ?i = Suc n" using n by simp
  ultimately have w: "index (rev wts) ?i = Inr ?w" using lt(3) by (simp add: index_def)
  have da: "np_dot ?w ?dz = Inr (mdot ?w ?dz)"
    by (rule np_dot_ok) (simp add: wsh dsh)
  have t: "ew (\<lambda>u v. u * v) (mdot ?w ?dz) ?a = Inr (times_mat (mdot ?w ?dz) ?a)"
    unfolding times_mat_def by (rule ew_same_shape) (simp_all add: wsh ash dsh)
  have u: "ew (\<lambda>u v. u * v) (times_mat (mdot ?w ?dz) ?a) (rsub 1 ?a)
           = Inr (times_mat (times_mat (mdot ?w ?dz) ?a) (rsub 1 ?a))"
    unfolding times_mat_def by (rule ew_same_shape) (simp_all add: wsh ash dsh)
  have "Suc n < length acts" using lt(1) s(3) by simp
  then have dn: "drop_row (times_mat (times_mat (mdot ?w ?dz) ?a) (rsub 1 ?a)) = loop_error wts acts y n"
    using loop_error_step[of n acts wts y] by simp
  have i: "?i + 1 = ?L - 1 - n" using n by simp
  show ?thesis
    unfolding bprop_loop.simps c d bind_def sum.case g st w da t u dn i ..
qed

lemma bprop_loop_correct:
  assumes sh: "net_shapes ns m X y wts acts" and n: "n \<le> length wts - 1"
  shows "bprop_loop (rev wts) m (length wts - 1 - n) (rev (take n acts))
           (pending X wts acts y n) (loop_error wts acts y n)
         = Inr (pending X wts acts y 0, loop_error wts acts y 0)"
  using n
proof (induction n)
  case 0
  then show ?case by simp
next
  case (Suc n)
  have "n < length acts" using Suc.prems net_shapesD(3)[OF sh] by simp
  then have "rev (take (Suc n) acts) = acts ! n # rev (take n acts)"
    by (simp add: take_Suc_conv_app_nth)
  then show ?case
    using bprop_loop_step[OF sh Suc.prems] Suc.IH Suc.prems by simp
qed

lemma pending_top:
  "pending X wts acts y (length wts - 1) = replicate (length wts) None"
  by (simp add: pending_def map_replicate_const)

lemma bprop_loop_all:
  assumes sh: "net_shapes ns m X y wts acts"
  shows "(if 1 < length wts
          then bprop_loop (rev wts) m 0 (tl (rev acts)) (replicate (length wts) None)
                 (loop_error wts acts y (length wts - 1))
          else Inr (replicate (length wts) None, loop_error wts acts y (length wts - 1)))
         = Inr (pending X wts acts y 0, loop_error wts acts y 0)"
proof (cases "1 < length wts")
  case True
  have "tl (rev acts) = rev (butlast acts)"
    by (cases acts rule: rev_cases) simp_all
  then have "tl (rev acts) = rev (take (length wts - 1) acts)"
    using net_shapesD(3)[OF sh] by (simp add: butlast_conv_take)
  with bprop_loop_correct[OF sh, of "length wts - 1"] True pending_top[of X wts acts y]
  show ?thesis by simp
next
  case False
  with net_shapesD(1)[OF sh] have "length wts - 1 = 0" by simp
  with False pending_top[of X wts acts y] show ?thesis by simp
qed

lemma rev_pending_final:
  assumes "1 \<le> length wts"
  shows "rev (((pending X wts acts y 0)[length wts - 1 := Some g0])[length wts - 1 := Some g])
         = map Some (map (\<lambda>l. if l = 0 then g else loop_gradient X wts acts y l) [0..<length wts])"
proof (rule nth_equalityI)
  show "length (rev (((pending X wts acts y 0)[length wts - 1 := Some g0])[length wts - 1 := Some g]))
        = length (map Some (map (\<lambda>l. if l = 0 then g else loop_gradient X wts acts y l) [0..<length wts]))"
    by simp
next
  fix k
  assume "k < length (rev (((pending X wts acts y 0)[length wts - 1 := Some g0])[length wts - 1 := Some g]))"
  then have k: "k < length wts" by simp
  have "rev (((pending X wts acts y 0)[length wts - 1 := Some g0])[length wts - 1 := Some g]) ! k
        = ((pending X wts acts y 0)[length wts - 1 := Some g0])[length wts - 1 := Some g] ! (length wts - Suc k)"
    using k by (simp add: rev_nth)
  also have "\<dots> = (if k = 0 then Some g else Some (loop_gradient X wts acts y k))"
  proof (cases "k = 0")
    case True
    with assms show ?thesis by simp
  next
    case False
    with k have "length wts - Suc k \<noteq> length wts - 1" "length wts - Suc k < length wts - 1"
      "length wts - 1 - (length wts - Suc k) = k" by simp_all
    with False k show ?thesis by (simp add: pending_def)
  qed
  finally show "rev (((pending X wts acts y 0)[length wts - 1 := Some g0])[length wts - 1 := Some g]) ! k
        = map Some (map (\<lambda>l. if l = 0 then g else loop_gradient X wts acts y l) [0..<length wts]) ! k"
    using k by simp
qed

lemma bprop_gradients:
  assumes sh: "net_shapes ns m X y (wts_or_self s wts_arg) (act s)"
  shows "bprop s X y wts_arg = Inr (map Some (gradients (decay s) X (wts_or_self s wts_arg) (act s) y))"
proof -
  let ?wts = "wts_or_self s wts_arg" and ?acts = "act s"
  let ?L = "length ?wts"
  have "ncols X = m" by (rule net_shapesD(6)[OF sh])
  with sh have sh: "net_shapes ns (ncols X) X y ?wts ?acts" by simp
  note d = net_shapesD[OF sh]
  have l0: "0 < ?L" using d(1) by linarith
  then have "0 < length ?acts" using d(3) by linarith
  with l0 have ne: "?acts \<noteq> []" "?wts \<noteq> []"
    by simp_all
  have la: "last ?acts = ?acts ! (?L - 1)" using ne(1) d(3) by (simp add: last_conv_nth)
  have a0: "index (rev ?acts) 0 = Inr (last ?acts)"
    using ne(1) by (simp add: index_def rev_nth last_conv_nth)
  have dz0: "ew (\<lambda>u v. u - v) (last ?acts) y = Inr (loop_error ?wts ?acts y (?L - 1))"
  proof -
    have "ew (\<lambda>u v. u - v) (last ?acts) y = Inr (minus_mat (last ?acts) y)"
      unfolding minus_mat_def by (rule ew_same_shape) (use d(7,8,13,14) in \<open>simp_all add: la\<close>)
    moreover have "loop_error ?wts ?acts y (?L - 1) = minus_mat (last ?acts) y"
      by (rule loop_error_last) (simp add: d(3))
    ultimately show ?thesis by simp
  qed
  note loop = bprop_loop_all[OF sh]
  have dsh: "nrows (loop_error ?wts ?acts y 0) = ns ! 1" "ncols (loop_error ?wts ?acts y 0) = ncols X"
    using loop_error_shape[OF sh l0] by simp_all
  have c: "reciprocal (ncols X) = Inr (1 / real (ncols X))"
    using d(4) by (simp add: reciprocal_pos)
  have dt: "np_dot X (transpose_mat (loop_error ?wts ?acts y 0))
            = Inr (mdot X (transpose_mat (loop_error ?wts ?acts y 0)))"
    by (rule np_dot_ok) (simp add: dsh)
  have g0: "smul (1 / real (ncols X)) (mdot X (transpose_mat (loop_error ?wts ?acts y 0)))
            = loop_gradient X ?wts ?acts y 0"
    by (simp add: loop_gradient_def layer_input_def)
  have pl: "pending X ?wts ?acts y 0 \<noteq> []" using l0 by (simp add: pending_def)
  have lw: "last (rev ?wts) = ?wts ! 0" using ne(2) by (simp add: hd_conv_nth last_rev)
  have ia: "iadd_from_row1 (loop_gradient X ?wts ?acts y 0) (smul (decay s) (drop_row (?wts ! 0)))
            = Inr (add_below (loop_gradient X ?wts ?acts y 0) (smul (decay s) (drop_row (?wts ! 0))))"
    using d(9,10)[OF l0] d(5) dsh
    by (simp add: iadd_from_row1_def loop_gradient_def layer_input_def)
  have "bprop s X y wts_arg =
        Inr (rev (((pending X ?wts ?acts y 0)[?L - 1 := Some (loop_gradient X ?wts ?acts y 0)])
                   [?L - 1 := Some (add_below (loop_gradient X ?wts ?acts y 0)
                                      (smul (decay s) (drop_row (?wts ! 0))))]))"
    unfolding bprop_def Let_def length_rev a0 bind_def sum.case dz0 loop
      prod.case c dt g0 lw ia store_last_def
    using pl by simp
  then show ?thesis
    unfolding rev_pending_final[OF d(1)] gradients_def .
qed

lemma gradients_nth:
  "l < length wts \<Longrightarrow> gradients dc X wts acts y ! l =
     (if l = 0 then add_below (loop_gradient X wts acts y 0) (smul dc (drop_row (wts ! 0)))
      else loop_gradient X wts acts y l)"
  by (simp add: gradients_def)

lemma gradients_shape:
  assumes sh: "net_shapes ns m X y wts acts" and l: "l < length wts"
  shows "shape (gradients dc X wts acts y ! l) = shape (wts ! l)"
proof -
  note d = net_shapesD[OF sh]
  have dl: "nrows (loop_error wts acts y l) = ns ! (l + 1)" using loop_error_shape[OF sh l] by simp
  show ?thesis
  proof (cases "l = 0")
    case True
    with l dl d(5) d(9,10)[OF l] show ?thesis
      by (simp add: gradients_nth shape_def loop_gradient_def layer_input_def)
  next
    case False
    then have "l - 1 < length wts - 1" using l by simp
    from d(11)[OF this] False have "nrows (acts ! (l - 1)) = ns ! l + 1" by simp
    with False l dl d(9,10)[OF l] show ?thesis
      by (simp add: gradients_nth shape_def loop_gradient_def layer_input_def)
  qed
qed

lemma small_bprop:
  "bprop small_net small_X small_y None =
     Inr [Some (Mat 2 1 [[0], [2]]), Some (Mat 2 2 [[- (1 / 2), 1 / 2], [- (1 / 4), 1 / 4]])]"
  by code_simp

lemma small_bprop0:
  "bprop (small_net\<lparr>decay := 0\<rparr>) small_X small_y None =
     Inr [Some (Mat 2 1 [[0], [0]]), Some (Mat 2 2 [[- (1 / 2), 1 / 2], [- (1 / 4), 1 / 4]])]"
  by code_simp

lemma upt_0_2: "[0..<2] = [0, Suc 0]"
  by code_simp

lemma small_cost:
  "cost_function small_net small_y None = Inr (Num (ln 2 + 9))"
  by (simp add: cost_function_def small_net_def small_y_def bind_def index_last_def wts_or_self_def
     ew_def bdim_def ew_total_def bmax_def bget_def smul_def log_mat_def mk_def entry_def
     column_sums_def column_def np_mean_def plus_float_def sum_squares_def drop_row_def
     log_finite_def upt_0_2 ln_div)

lemma small_cost0:
  "cost_function (small_net\<lparr>decay := 0\<rparr>) small_y None = Inr (Num (ln 2))"
  by (simp add: cost_function_def small_net_def small_y_def bind_def index_last_def wts_or_self_def
     ew_def bdim_def ew_total_def bmax_def bget_def smul_def log_mat_def mk_def entry_def
     column_sums_def column_def np_mean_def plus_float_def sum_squares_def drop_row_def
     log_finite_def upt_0_2 ln_div)

lemma mk_cong:
  "(\<And>i j. i < r \<Longrightarrow> j < c \<Longrightarrow> f i j = g i j) \<Longrightarrow> mk r c f = mk r c g"
  by (simp add: mk_def)

lemma bget_in_range: "i < nrows A \<Longrightarrow> j < ncols A \<Longrightarrow> bget A i j = entry A i j"
  by (auto simp: bget_def)

lemma ew_total_same_shape:
  assumes "nrows A = nrows B" and "ncols A = ncols B"
  shows "ew_total f A B = mk (nrows A) (ncols A) (\<lambda>i j. f (entry A i j) (entry B i j))"
proof -
  have "mk (nrows A) (ncols A) (\<lambda>i j. f (bget A i j) (bget B i j))
        = mk (nrows A) (ncols A) (\<lambda>i j. f (entry A i j) (entry B i j))"
    by (rule mk_cong) (simp add: bget_in_range assms[symmetric])
  then show ?thesis by (simp add: ew_total_def assms[symmetric])
qed

lemma entry_ops:
  "i < nrows A \<Longrightarrow> j < ncols A \<Longrightarrow> entry (smul c A) i j = c * entry A i j"
  "i < nrows A \<Longrightarrow> j < ncols A \<Longrightarrow> entry (rsub c A) i j = c - entry A i j"
  "i < ncols A \<Longrightarrow> j < nrows A \<Longrightarrow> entry (transpose_mat A) i j = entry A j i"
  "i < nrows A - 1 \<Longrightarrow> j < ncols A \<Longrightarrow> entry (drop_row A) i j = entry A (i + 1) j"
  "i < nrows A \<Longrightarrow> j < ncols B \<Longrightarrow>
     entry (mdot A B) i j = (\<Sum>k\<leftarrow>[0..<ncols A]. entry A i k * entry B k j)"
  by (simp_all add: smul_def rsub_def transpose_mat_def drop_row_def mdot_def)

lemma delta_last:
  "length acts \<le> l + 1 \<Longrightarrow> delta wts acts y l =
     mk (nrows (last acts)) (ncols (last acts)) (\<lambda>i j. entry (last acts) i j - entry y i j)"
  by (subst delta.simps) simp

lemma delta_step:
  "l + 1 < length acts \<Longrightarrow> delta wts acts y l =
     mk (nrows (acts ! l) - 1) (ncols (acts ! l))
       (\<lambda>i j. (\<Sum>k\<leftarrow>[0..<ncols (wts ! (l + 1))].
                   entry (wts ! (l + 1)) (i + 1) k * entry (delta wts acts y (l + 1)) k j)
              * (entry (acts ! l) (i + 1) j * (1 - entry (acts ! l) (i + 1) j)))"
  by (subst delta.simps) (simp add: Let_def)

lemma back_step:
  assumes w: "nrows W = nrows a" and d: "ncols d = ncols a"
  shows "drop_row (times_mat (times_mat (mdot W d) a) (rsub 1 a)) =
     mk (nrows a - 1) (ncols a)
       (\<lambda>i j. (\<Sum>k\<leftarrow>[0..<ncols W]. entry W (i + 1) k * entry d k j)
              * (entry a (i + 1) j * (1 - entry a (i + 1) j)))"
proof -
  have t1: "times_mat (mdot W d) a = mk (nrows a) (ncols a) (\<lambda>i j. entry (mdot W d) i j * entry a i j)"
    unfolding times_mat_def using ew_total_same_shape[of "mdot W d" a] w d by simp
  have t2: "times_mat (times_mat (mdot W d) a) (rsub 1 a)
      = mk (nrows a) (ncols a)
          (\<lambda>i j. entry (times_mat (mdot W d) a) i j * entry (rsub 1 a) i j)"
    unfolding times_mat_def[of "times_mat (mdot W d) a"]
    using ew_total_same_shape[of "times_mat (mdot W d) a" "rsub 1 a"] by (simp add: t1)
  have "drop_row (times_mat (times_mat (mdot W d) a) (rsub 1 a)) =
     mk (nrows a - 1) (ncols a) (\<lambda>i j. entry (times_mat (times_mat (mdot W d) a) (rsub 1 a)) (i + 1) j)"
    by (simp add: drop_row_def t2)
  also have "\<dots> = mk (nrows a - 1) (ncols a)
       (\<lambda>i j. (\<Sum>k\<leftarrow>[0..<ncols W]. entry W (i + 1) k * entry d k j)
              * (entry a (i + 1) j * (1 - entry a (i + 1) j)))"
  proof (rule mk_cong)
    fix i j
    assume i: "i < nrows a - 1" and j: "j < ncols a"
    then have i1: "i + 1 < nrows a" by simp
    have "entry (times_mat (times_mat (mdot W d) a) (rsub 1 a)) (i + 1) j
          = entry (times_mat (mdot W d) a) (i + 1) j * entry (rsub 1 a) (i + 1) j"
      unfolding t2 using i1 j by simp
    also have "entry (times_mat (mdot W d) a) (i + 1) j = entry (mdot W d) (i + 1) j * entry a (i + 1) j"
      unfolding t1 using i1 j by simp
    also have "entry (mdot W d) (i + 1) j = (\<Sum>k\<leftarrow>[0..<ncols W]. entry W (i + 1) k * entry d k j)"
      using i1 j w d by (simp add: entry_ops(5))
    also have "entry (rsub 1 a) (i + 1) j = 1 - entry a (i + 1) j"
      using i1 j by (simp add: entry_ops(2))
    finally show "entry (times_mat (times_mat (mdot W d) a) (rsub 1 a)) (i + 1) j
        = (\<Sum>k\<leftarrow>[0..<ncols W]. entry W (i + 1) k * entry d k j)
              * (entry a (i + 1) j * (1 - entry a (i + 1) j))"
      by (simp add: mult.assoc)
  qed
  finally show ?thesis .
qed

lemma loop_error_is_delta:
  assumes "net_shapes ns m X y wts acts" and "l < length wts"
  shows "loop_error wts acts y l = delta wts acts y l"
  using assms
proof (induction wts acts y l rule: loop_error.induct)
  case (1 wts acts y l)
  note sh = net_shapesD[OF "1.prems"(1)]
  show ?case
  proof (cases "length acts \<le> l + 1")
    case True
    with sh(3) "1.prems"(2) have l: "l = length wts - 1" by simp
    have "0 < length acts" using sh(1,3) by linarith
    then have "acts \<noteq> []" by simp
    then have la: "last acts = acts ! (length wts - 1)"
      using sh(3) by (simp add: last_conv_nth)
    have "nrows (last acts) = nrows y" "ncols (last acts) = ncols y"
      using sh(7,8,13,14) by (simp_all add: la)
    then have "minus_mat (last acts) y
        = mk (nrows (last acts)) (ncols (last acts)) (\<lambda>i j. entry (last acts) i j - entry y i j)"
      unfolding minus_mat_def by (rule ew_total_same_shape)
    with True show ?thesis by (simp add: loop_error_last delta_last)
  next
    case False
    then have lt: "l + 1 < length wts" "l < length wts - 1" and la: "l + 1 < length acts"
      using sh(3) by simp_all
    have ih: "loop_error wts acts y (l + 1) = delta wts acts y (l + 1)"
      by (rule "1.IH"[OF False "1.prems"(1) lt(1)])
    have dsh: "ncols (loop_error wts acts y (l + 1)) = m"
      using loop_error_shape[OF "1.prems"(1) lt(1)] by simp
    have w: "nrows (wts ! (l + 1)) = nrows (acts ! l)"
      using sh(9)[OF lt(1)] sh(11)[OF lt(2)] by simp
    have d: "ncols (loop_error wts acts y (l + 1)) = ncols (acts ! l)"
      using dsh sh(12)[OF lt(2)] by simp
    have "loop_error wts acts y l =
        drop_row (times_mat (times_mat (mdot (wts ! (l + 1)) (loop_error wts acts y (l + 1))) (acts ! l))
                   (rsub 1 (acts ! l)))"
      by (rule loop_error_step[OF la])
    also have "\<dots> = mk (nrows (acts ! l) - 1) (ncols (acts ! l))
       (\<lambda>i j. (\<Sum>k\<leftarrow>[0..<ncols (wts ! (l + 1))].
                   entry (wts ! (l + 1)) (i + 1) k * entry (loop_error wts acts y (l + 1)) k j)
              * (entry (acts ! l) (i + 1) j * (1 - entry (acts ! l) (i + 1) j)))"
      by (rule back_step[OF w d])
    also have "\<dots> = delta wts acts y l"
      unfolding ih by (rule delta_step[OF la, symmetric])
    finally show ?thesis .
  qed
qed

lemma loop_gradient_is_layer_gradient:
  assumes sh: "net_shapes ns m X y wts acts" and l: "l < length wts"
  shows "loop_gradient X wts acts y l = layer_gradient X wts acts y l"
proof -
  note d = net_shapesD[OF sh]
  let ?inp = "layer_input X acts l" and ?d = "delta wts acts y l"
  have e: "loop_error wts acts y l = ?d" by (rule loop_error_is_delta[OF sh l])
  have dc: "ncols ?d = m" using loop_error_shape[OF sh l] e by simp
  have ic: "ncols ?inp = m"
  proof (cases "l = 0")
    case True
    then show ?thesis by (simp add: layer_input_def d(6))
  next
    case False
    then have "l - 1 < length wts - 1" using l by simp
    from d(12)[OF this] False show ?thesis by (simp add: layer_input_def)
  qed
  have "smul (1 / real (ncols X)) (mdot ?inp (transpose_mat ?d))
        = mk (nrows ?inp) (nrows ?d)
            (\<lambda>i j. 1 / real (ncols X) * entry (mdot ?inp (transpose_mat ?d)) i j)"
    by (simp add: smul_def)
  also have "\<dots> = mk (nrows ?inp) (nrows ?d)
            (\<lambda>i j. (\<Sum>c\<leftarrow>[0..<ncols ?inp]. entry ?inp i c * entry ?d j c) / real (ncols X))"
  proof (rule mk_cong)
    fix i j
    assume i: "i < nrows ?inp" and j: "j < nrows ?d"
    have "entry (mdot ?inp (transpose_mat ?d)) i j
          = (\<Sum>c\<leftarrow>[0..<ncols ?inp]. entry ?inp i c * entry (transpose_mat ?d) c j)"
      using i j by (simp add: entry_ops(5))
    also have "\<dots> = (\<Sum>c\<leftarrow>[0..<ncols ?inp]. entry ?inp i c * entry ?d j c)"
    proof -
      have "map (\<lambda>c. entry ?inp i c * entry (transpose_mat ?d) c j) [0..<ncols ?inp]
            = map (\<lambda>c. entry ?inp i c * entry ?d j c) [0..<ncols ?inp]"
        using j ic dc by (intro map_cong) (simp_all add: entry_ops(3))
      then show ?thesis by (rule arg_cong)
    qed
    finally show "1 / real (ncols X) * entry (mdot ?inp (transpose_mat ?d)) i j
        = (\<Sum>c\<leftarrow>[0..<ncols ?inp]. entry ?inp i c * entry ?d j c) / real (ncols X)"
      by simp
  qed
  finally show ?thesis
    by (simp add: loop_gradient_def layer_gradient_def e Let_def)
qed

lemma add_below_is_with_decay:
  assumes "nrows G = nrows W" and "ncols G = ncols W"
  shows "add_below G (smul dc (drop_row W)) = with_decay dc W G"
  unfolding add_below_def with_decay_def
proof (rule mk_cong)
  fix i j
  assume i: "i < nrows G" and j: "j < ncols G"
  show "(if i = 0 then entry G i j else entry G i j + bget (smul dc (drop_row W)) (i - 1) j)
        = entry G i j + (if i = 0 then 0 else dc * entry W i j)"
  proof (cases "i = 0")
    case True
    then show ?thesis by simp
  next
    case False
    then have i1: "i - 1 < nrows W - 1" using i assms(1) by simp
    have j1: "j < ncols W" using j assms(2) by simp
    have "bget (smul dc (drop_row W)) (i - 1) j = entry (smul dc (drop_row W)) (i - 1) j"
      using i1 j1 by (simp add: bget_in_range)
    also have "\<dots> = dc * entry (drop_row W) (i - 1) j"
      using i1 j1 by (simp add: entry_ops(1))
    also have "\<dots> = dc * entry W i j"
      using i1 j1 False by (simp add: entry_ops(4))
    finally show ?thesis using False by simp
  qed
qed

lemma check_shapes:
  "net_shapes [1, 1, 2] 2 check_X check_y (wts_or_self check_net None) (act check_net)"
  by code_simp

lemma check_bprop:
  "bprop check_net check_X check_y None =
     Inr [Some (Mat 2 1 [[1 / 128], [77 / 64]]),
          Some (Mat 2 2 [[- (1 / 24), 1 / 24], [5 / 32, - (5 / 32)]])]"
  by code_simp

text \<open>
  C4. On a network whose weights, cached activations, data and labels have the
  shapes of a topology, \<open>bprop\<close> returns one gradient per weight matrix, in layer
  order, each of the shape of its weight matrix. The error that line 84 computes is
  the last activation minus \<open>y\<close>. The gradient of every layer \<open>l\<close> after the first is,
  entry by entry, the layer's input times the transposed error of the layer, over
  the number of examples, where the error of an earlier layer is the
  back-propagated error times \<open>a\<cdot>(1 - a)\<close> with row 0 removed (\<open>delta\<close>). The first
  gradient is that product too, with the decay term of line 92 added below its
  bias row.
\<close>

theorem bprop_errors_order_shapes:
  assumes "net_shapes ns m X y (wts_or_self s wts_arg) (act s)"
  shows "\<exists>gs. bprop s X y wts_arg = Inr (map Some gs) \<and>
    length gs = length (wts_or_self s wts_arg) \<and>
    (\<forall>l < length gs. shape (gs ! l) = shape (wts_or_self s wts_arg ! l)) \<and>
    (\<forall>l < length gs. 0 < l \<longrightarrow>
        gs ! l = layer_gradient X (wts_or_self s wts_arg) (act s) y l) \<and>
    gs ! 0 = with_decay (decay s) (wts_or_self s wts_arg ! 0)
               (layer_gradient X (wts_or_self s wts_arg) (act s) y 0) \<and>
    ew (\<lambda>u v. u - v) (last (act s)) y
      = Inr (delta (wts_or_self s wts_arg) (act s) y (length gs - 1))"
proof -
  let ?wts = "wts_or_self s wts_arg"
  let ?gs = "gradients (decay s) X ?wts (act s) y"
  note d = net_shapesD[OF assms]
  have len: "length ?gs = length ?wts" by (simp add: gradients_def)
  have l0: "0 < length ?wts" using d(1) by linarith
  have a: "bprop s X y wts_arg = Inr (map Some ?gs)" by (rule bprop_gradients[OF assms])
  have b: "\<forall>l < length ?gs. shape (?gs ! l) = shape (?wts ! l)"
    using gradients_shape[OF assms] len by simp
  have c: "\<forall>l < length ?gs. 0 < l \<longrightarrow> ?gs ! l = layer_gradient X ?wts (act s) y l"
    using len loop_gradient_is_layer_gradient[OF assms] by (simp add: gradients_nth)
  have g0: "loop_gradient X ?wts (act s) y 0 = layer_gradient X ?wts (act s) y 0"
    by (rule loop_gradient_is_layer_gradient[OF assms l0])
  have "shape (?gs ! 0) = shape (?wts ! 0)" using b len l0 by simp
  then have sh0: "nrows (layer_gradient X ?wts (act s) y 0) = nrows (?wts ! 0)"
    "ncols (layer_gradient X ?wts (act s) y 0) = ncols (?wts ! 0)"
    using l0 by (simp_all add: gradients_nth shape_def g0)
  have e: "?gs ! 0 = with_decay (decay s) (?wts ! 0) (layer_gradient X ?wts (act s) y 0)"
    using l0 add_below_is_with_decay[OF sh0] by (simp add: gradients_nth g0)
  have "0 < length (act s)" using l0 d(3) by linarith
  then have "act s \<noteq> []" by simp
  then have la: "last (act s) = act s ! (length ?wts - 1)"
    using d(3) by (simp add: last_conv_nth)
  have same: "nrows (last (act s)) = nrows y" "ncols (last (act s)) = ncols y"
    using d(7,8,13,14) by (simp_all add: la)
  have "ew (\<lambda>u v. u - v) (last (act s)) y = Inr (minus_mat (last (act s)) y)"
    unfolding minus_mat_def by (rule ew_same_shape[OF same])
  moreover have "minus_mat (last (act s)) y = delta ?wts (act s) y (length ?gs - 1)"
    unfolding minus_mat_def ew_total_same_shape[OF same]
    by (rule delta_last[symmetric]) (simp add: len d(3))
  ultimately have f: "ew (\<lambda>u v. u - v) (last (act s)) y
      = Inr (delta ?wts (act s) y (length ?gs - 1))"
    by simp
  show ?thesis
    apply (rule exI[of _ ?gs])
    apply (intro conjI)
         apply (rule a)
        apply (rule len)
       apply (rule b)
      apply (rule c)
     apply (rule e)
    apply (rule f)
    done
qed

theorem bprop_errors_order_shapes_witness:
  "net_shapes [1, 1, 2] 2 check_X check_y (wts_or_self check_net None) (act check_net) \<and>
   bprop check_net check_X check_y None =
     Inr [Some (Mat 2 1 [[1 / 128], [77 / 64]]),
          Some (Mat 2 2 [[- (1 / 24), 1 / 24], [5 / 32, - (5 / 32)]])] \<and>
   delta (wts_or_self check_net None) (act check_net) check_y 1
     = Mat 2 2 [[- (3 / 4), 2 / 3], [3 / 4, - (2 / 3)]] \<and>
   delta (wts_or_self check_net None) (act check_net) check_y 0 = Mat 1 2 [[9 / 64, - (1 / 8)]] \<and>
   layer_gradient check_X (wts_or_self check_net None) (act check_net) check_y 1
     = Mat 2 2 [[- (1 / 24), 1 / 24], [5 / 32, - (5 / 32)]] \<and>
   with_decay (decay check_net) (wts_or_self check_net None ! 0)
       (layer_gradient check_X (wts_or_self check_net None) (act check_net) check_y 0)
     = Mat 2 1 [[1 / 128], [77 / 64]] \<and>
   ew (\<lambda>u v. u - v) (last (act check_net)) check_y
     = Inr (Mat 2 2 [[- (3 / 4), 2 / 3], [3 / 4, - (2 / 3)]]) \<and>
   bprop check_net check_X (Mat 3 2 [[1, 0], [0, 1], [0, 0]]) None = Inl ValueError \<and>
   bprop check_net (Mat 2 0 [[], []]) check_y None = Inl ZeroDivisionError"
proof -
  have d1: "delta (wts_or_self check_net None) (act check_net) check_y 1
     = Mat 2 2 [[- (3 / 4), 2 / 3], [3 / 4, - (2 / 3)]]" by code_simp
  have d0: "delta (wts_or_self check_net None) (act check_net) check_y 0
     = Mat 1 2 [[9 / 64, - (1 / 8)]]" by code_simp
  have e1: "bprop check_net check_X (Mat 3 2 [[1, 0], [0, 1], [0, 0]]) None = Inl ValueError"
    by code_simp
  have e2: "bprop check_net (Mat 2 0 [[], []]) check_y None = Inl ZeroDivisionError"
    by code_simp
  from bprop_errors_order_shapes[OF check_shapes] obtain gs where
    g: "bprop check_net check_X check_y None = Inr (map Some gs) \<and>
    length gs = length (wts_or_self check_net None) \<and>
    (\<forall>l < length gs. shape (gs ! l) = shape (wts_or_self check_net None ! l)) \<and>
    (\<forall>l < length gs. 0 < l \<longrightarrow>
        gs ! l = layer_gradient check_X (wts_or_self check_net None) (act check_net) check_y l) \<and>
    gs ! 0 = with_decay (decay check_net) (wts_or_self check_net None ! 0)
               (layer_gradient check_X (wts_or_self check_net None) (act check_net) check_y 0) \<and>
    ew (\<lambda>u v. u - v) (last (act check_net)) check_y
      = Inr (delta (wts_or_self check_net None) (act check_net) check_y (length gs - 1))" ..
  note g1 = g[THEN conjunct1] and g4 = g[THEN conjunct2, THEN conjunct2, THEN conjunct2, THEN conjunct1]
    and g5 = g[THEN conjunct2, THEN conjunct2, THEN conjunct2, THEN conjunct2, THEN conjunct1]
    and g6 = g[THEN conjunct2, THEN conjunct2, THEN conjunct2, THEN conjunct2, THEN conjunct2]
  from g1 check_bprop have "map Some gs = [Some (Mat 2 1 [[1 / 128], [77 / 64]]),
          Some (Mat 2 2 [[- (1 / 24), 1 / 24], [5 / 32, - (5 / 32)]])]"
    by simp
  then have gs: "gs = [Mat 2 1 [[1 / 128], [77 / 64]],
          Mat 2 2 [[- (1 / 24), 1 / 24], [5 / 32, - (5 / 32)]]]"
    by (simp add: map_eq_Cons_conv)
  have l1: "(1::nat) < length gs" "(0::nat) < 1" by (simp_all add: gs)
  from g4[rule_format, OF l1] have lg: "layer_gradient check_X (wts_or_self check_net None)
      (act check_net) check_y 1 = Mat 2 2 [[- (1 / 24), 1 / 24], [5 / 32, - (5 / 32)]]"
    by (simp add: gs)
  from g5 have wd: "with_decay (decay check_net) (wts_or_self check_net None ! 0)
       (layer_gradient check_X (wts_or_self check_net None) (act check_net) check_y 0)
     = Mat 2 1 [[1 / 128], [77 / 64]]"
    by (simp add: gs)
  have "length gs - 1 = 1" by (simp add: gs)
  with g6 have ow: "ew (\<lambda>u v. u - v) (last (act check_net)) check_y
     = Inr (Mat 2 2 [[- (3 / 4), 2 / 3], [3 / 4, - (2 / 3)]])"
    by (simp only: d1)
  show ?thesis
    by (intro conjI) (fact check_shapes check_bprop d1 d0 lg wd ow e1 e2)+
qed

text \<open>
  C5, evaluated on the code. With decay 1 the cost of the small network is 9 above
  the cost with decay 0, which is \<open>0.5\<cdot>(3\<^sup>2 + 3\<^sup>2)\<close> for the two entries below the
  bias row of the last weight matrix: the cost penalises the last layer only. The
  gradients that \<open>bprop\<close> returns differ between decay 1 and decay 0 in the first
  matrix, by the entry 2 of the first weight matrix, and not in the last one, which
  has no term \<open>decay\<cdot>3\<close>: line 92 works on the reversed lists, where index -1 is the
  first layer.
\<close>

theorem bprop_decays_first_layer_not_last:
  "cost_function small_net small_y None = Inr (Num (ln 2 + 9)) \<and>
   cost_function (small_net\<lparr>decay := 0\<rparr>) small_y None = Inr (Num (ln 2)) \<and>
   bprop small_net small_X small_y None =
     Inr [Some (Mat 2 1 [[0], [2]]), Some (Mat 2 2 [[- (1 / 2), 1 / 2], [- (1 / 4), 1 / 4]])] \<and>
   bprop (small_net\<lparr>decay := 0\<rparr>) small_X small_y None =
     Inr [Some (Mat 2 1 [[0], [0]]), Some (Mat 2 2 [[- (1 / 2), 1 / 2], [- (1 / 4), 1 / 4]])]"
  using small_cost small_cost0 small_bprop small_bprop0 by blast

end
